theory Spec2Isabelle
  imports Complex_Main
begin

section \<open>Data model\<close>

text \<open>
  The back end keeps five Mongoose collections (\<^verbatim>\<open>models/index.js\<close>): User, Place,
  Checkin, RewardHistory and Reward. Object ids are opaque keys, dates are milliseconds
  since the epoch. Point amounts are JavaScript Numbers holding integers and are modelled
  as unbounded integers. Stored and claimed coordinates are finite Numbers, given by
  their real values. Only the fields the ledger flows read or write are kept.
\<close>

type_synonym objectId = nat
type_synonym date = int

text \<open>
  A Number as the distance computation produces it: a finite Number, given by its real
  value, or \<^verbatim>\<open>NaN\<close>. (The computation divides by the literals 180 and 2 only and its
  results are bounded, so no infinity arises in it.)
\<close>

datatype number = NaN | Num real

text \<open>Place schema: \<^verbatim>\<open>redemption: { eligible, pointsCost }\<close>; a field may be absent.\<close>

record redemption =
  eligible :: "bool option"
  redemption_pointsCost :: "int option"

text \<open>\<^verbatim>\<open>location.coordinates\<close> is the pair \<^verbatim>\<open>[lng, lat]\<close>.\<close>

record place =
  place_name :: string
  place_coordinates :: "real \<times> real"
  place_redemption :: "redemption option"

datatype reward_type = Voucher | Discount | Coupon | Gift | Experience | Other

record reward =
  reward_name :: string
  reward_shortDescription :: string
  reward_pointsCost :: int
  reward_kind :: reward_type
  isActive :: bool
  validUntil :: "date option"

text \<open>An element of \<^verbatim>\<open>user.rewards\<close>: the snapshot pushed by a reward redemption.\<close>

record redeemed =
  redeemed_name :: string
  redeemed_shortDescription :: string
  redeemed_pointsCost :: int
  redeemedAt :: date

record user =
  rewardPoints_total :: int
  user_rewards :: "redeemed list"

record checkin_doc =
  checkin_id :: objectId
  checkin_userId :: objectId
  checkin_placeId :: objectId
  checkin_coordinates :: "real \<times> real"
  checkin_timestamp :: date

record history =
  history_userId :: objectId
  amount :: int
  reason :: string
  history_timestamp :: date

text \<open>
  The store. Checkin and RewardHistory are append-only here, so they are lists in
  insertion order; the other collections are maps from \<^verbatim>\<open>_id\<close> to document.
\<close>

record db =
  User :: "objectId \<rightharpoonup> user"
  Place :: "objectId \<rightharpoonup> place"
  Reward :: "objectId \<rightharpoonup> reward"
  Checkin :: "checkin_doc list"
  RewardHistory :: "history list"

text \<open>
  The JavaScript runtime of the server, as far as the handlers use it: double arithmetic
  and the \<^verbatim>\<open>Math\<close> library on Numbers, and the server's time zone through the two calendar
  operations \<^verbatim>\<open>d.setHours(0, 0, 0, 0)\<close> and \<^verbatim>\<open>d.setDate(d.getDate() + 1)\<close> on dates. None of
  it is code of the repository, so it is a parameter of the model.
\<close>

record runtime =
  fmul :: "number \<Rightarrow> number \<Rightarrow> number"
  fdiv :: "number \<Rightarrow> number \<Rightarrow> number"
  fadd :: "number \<Rightarrow> number \<Rightarrow> number"
  fsub :: "number \<Rightarrow> number \<Rightarrow> number"
  Math_sin :: "number \<Rightarrow> number"
  Math_cos :: "number \<Rightarrow> number"
  Math_sqrt :: "number \<Rightarrow> number"
  Math_atan2 :: "number \<Rightarrow> number \<Rightarrow> number"
  Math_PI :: number
  startOfLocalDay :: "date \<Rightarrow> date"
  nextLocalDay :: "date \<Rightarrow> date"

text \<open>
  What a request reads from its environment: the runtime, the readings of \<^verbatim>\<open>new Date()\<close>
  at the first, second and third place where its handler reads the clock, and the \<^verbatim>\<open>_id\<close>
  MongoDB assigns to a created Checkin.
\<close>

record env =
  runtime :: runtime
  now1 :: date
  now2 :: date
  now3 :: date
  freshId :: objectId

text \<open>
  The JSON answers: \<^verbatim>\<open>res.status(s).json({ success, message, data })\<close>. The rounded distance
  of a check-in answer is \<open>None\<close> when it is \<^verbatim>\<open>NaN\<close>.
\<close>

datatype payload =
    CheckinData (checkinId: objectId) (data_placeId: objectId) (data_placeName: string)
      (data_distance: "int option") (data_awarded: int) (data_total: int)
      (data_timestamp: date)
  | RewardData (data_rewardId: objectId) (data_rewardName: string)
      (data_shortDescription: string) (data_type: reward_type) (data_pointsCost: int)
      (remainingPoints: int)
  | PlaceRedeemData (pointsAwarded: int) (totalPoints: int)

datatype response =
  Response (status: nat) (success: bool) (message: string) (data: "payload option")

definition failure :: "nat \<Rightarrow> string \<Rightarrow> response" where
  "failure s m = Response s False m None"

section \<open>Rendering numbers in messages\<close>

text \<open>Template literals print an integer Number in decimal, with a leading minus sign.\<close>

fun show_nat :: "nat \<Rightarrow> string" where
  "show_nat n = (if n < 10 then [''0123456789'' ! n]
                 else show_nat (n div 10) @ [''0123456789'' ! (n mod 10)])"

declare show_nat.simps [simp del]

definition show_int :: "int \<Rightarrow> string" where
  "show_int i = (if i < 0 then CHR ''-'' # show_nat (nat (- i)) else show_nat (nat i))"

section \<open>Numbers\<close>

text \<open>
  The comparisons \<^verbatim>\<open>a < b\<close> and \<^verbatim>\<open>a > b\<close> are exact on the values of doubles and false when
  an operand is \<^verbatim>\<open>NaN\<close>. \<^verbatim>\<open>Math.round\<close> gives the nearest integer, halves upwards, and \<^verbatim>\<open>NaN\<close>
  for \<^verbatim>\<open>NaN\<close>; a template literal prints the result in decimal or as \<^verbatim>\<open>NaN\<close>.
\<close>

definition js_less :: "number \<Rightarrow> number \<Rightarrow> bool" where
  "js_less a b =
     (case a of NaN \<Rightarrow> False | Num x \<Rightarrow> (case b of NaN \<Rightarrow> False | Num y \<Rightarrow> x < y))"

definition js_greater :: "number \<Rightarrow> number \<Rightarrow> bool" where
  "js_greater a b = js_less b a"

definition Math_round :: "number \<Rightarrow> int option" where
  "Math_round a = (case a of NaN \<Rightarrow> None | Num x \<Rightarrow> Some (round x))"

definition show_rounded :: "int option \<Rightarrow> string" where
  "show_rounded r = (case r of None \<Rightarrow> ''NaN'' | Some i \<Rightarrow> show_int i)"

section \<open>Distance calculator\<close>

text \<open>
  \<^verbatim>\<open>calculateDistance(lat1, lng1, lat2, lng2)\<close>, \<^verbatim>\<open>src/routes/checkins.js\<close> lines 110-123, in
  the arithmetic of the runtime and in the source's order of evaluation.
\<close>

definition calculateDistance ::
  "runtime \<Rightarrow> number \<Rightarrow> number \<Rightarrow> number \<Rightarrow> number \<Rightarrow> number" where
  "calculateDistance rt lat1 lng1 lat2 lng2 =
     (let R = Num 6371000;
          phi1 = fdiv rt (fmul rt lat1 (Math_PI rt)) (Num 180);
          phi2 = fdiv rt (fmul rt lat2 (Math_PI rt)) (Num 180);
          dphi = fdiv rt (fmul rt (fsub rt lat2 lat1) (Math_PI rt)) (Num 180);
          dlambda = fdiv rt (fmul rt (fsub rt lng2 lng1) (Math_PI rt)) (Num 180);
          a = fadd rt
                (fmul rt (Math_sin rt (fdiv rt dphi (Num 2)))
                         (Math_sin rt (fdiv rt dphi (Num 2))))
                (fmul rt (fmul rt (fmul rt (Math_cos rt phi1) (Math_cos rt phi2))
                                  (Math_sin rt (fdiv rt dlambda (Num 2))))
                         (Math_sin rt (fdiv rt dlambda (Num 2))));
          c = fmul rt (Num 2)
                (Math_atan2 rt (Math_sqrt rt a) (Math_sqrt rt (fsub rt (Num 1) a)))
      in fmul rt R c)"

text \<open>
  \<^verbatim>\<open>validateCoordinates(lat, lng)\<close> of \<^verbatim>\<open>src/middleware/validation.js\<close>, on finite numbers.
  The Place schema validates stored positions to the same ranges.
\<close>

definition validateCoordinates :: "real \<Rightarrow> real \<Rightarrow> bool" where
  "validateCoordinates lat lng \<longleftrightarrow> - 90 \<le> lat \<and> lat \<le> 90 \<and> - 180 \<le> lng \<and> lng \<le> 180"

section \<open>Saving a user document\<close>

text \<open>
  The User schema declares \<^verbatim>\<open>rewardPoints.total: { type: Number, default: 0, min: 0 }\<close>
  and \<^verbatim>\<open>rewards[].pointsCost: { type: Number, required: true, min: 0 }\<close>. Mongoose runs
  these validators inside \<^verbatim>\<open>user.save()\<close> and rejects the save when one fails. The
  string validators (required, maxlength) are not modelled: the strings the flows store
  are copied from Place and Reward documents, whose schemas bound them more tightly.
\<close>

definition validateUser :: "user \<Rightarrow> bool" where
  "validateUser u \<longleftrightarrow>
     0 \<le> rewardPoints_total u \<and> list_all (\<lambda>r. 0 \<le> redeemed_pointsCost r) (user_rewards u)"

text \<open>
  \<^verbatim>\<open>await user.save()\<close> for a loaded document \<open>doc\<close> whose total was assigned and onto whose
  \<^verbatim>\<open>rewards\<close> array the snapshots \<open>pushed\<close> were pushed: the document is validated, then
  the stored document gets the new total and the pushed snapshots. \<open>None\<close> is a rejected
  save (validation error, or no stored document left to update), which the handlers'
  \<^verbatim>\<open>catch\<close> turns into a 500.
\<close>

definition save_user :: "db \<Rightarrow> objectId \<Rightarrow> user \<Rightarrow> redeemed list \<Rightarrow> db option" where
  "save_user st uid doc pushed =
     (if \<not> validateUser doc then None
      else case User st uid of
             None \<Rightarrow> None
           | Some stored \<Rightarrow>
               Some (st\<lparr>User := (User st)(uid \<mapsto>
                       stored\<lparr>rewardPoints_total := rewardPoints_total doc,
                              user_rewards := user_rewards stored @ pushed\<rparr>)\<rparr>))"

definition create_history :: "db \<Rightarrow> history \<Rightarrow> db" where
  "create_history st h = st\<lparr>RewardHistory := RewardHistory st @ [h]\<rparr>"

definition serverError :: response where
  "serverError = failure 500 ''Server error''"

section \<open>Check-in verifier\<close>

text \<open>
  The query \<^verbatim>\<open>{ userId, placeId, timestamp: { $gte: today, $lt: tomorrow } }\<close>, with
  \<^verbatim>\<open>today\<close> the clock reading after \<^verbatim>\<open>setHours(0, 0, 0, 0)\<close> and \<^verbatim>\<open>tomorrow\<close> that date after
  \<^verbatim>\<open>setDate(getDate() + 1)\<close>.
\<close>

definition checkedInToday :: "env \<Rightarrow> objectId \<Rightarrow> objectId \<Rightarrow> checkin_doc \<Rightarrow> bool" where
  "checkedInToday e uid pid c \<longleftrightarrow>
     (let today = startOfLocalDay (runtime e) (now1 e);
          tomorrow = nextLocalDay (runtime e) today
      in checkin_userId c = uid \<and> checkin_placeId c = pid \<and>
         today \<le> checkin_timestamp c \<and> checkin_timestamp c < tomorrow)"

text \<open>
  \<^verbatim>\<open>router.post('/')\<close> of \<^verbatim>\<open>src/routes/checkins.js\<close>, lines 7-107, for the authenticated user
  \<open>uid\<close> and the body \<^verbatim>\<open>{ placeId, coordinates: [lng, lat] }\<close>, split at the \<^verbatim>\<open>await\<close> after which
  the handler holds the user document. \<open>checkin_load\<close> is lines 9-70: it answers a missing
  place, a distance out of band or a check-in of the day, else creates the Checkin and
  reads the user. A null user makes \<^verbatim>\<open>user.rewardPoints\<close> throw after the Checkin was
  created; the \<^verbatim>\<open>catch\<close> answers 500.
\<close>

definition checkin_load ::
  "env \<Rightarrow> db \<Rightarrow> objectId \<Rightarrow> objectId \<Rightarrow> real \<times> real \<Rightarrow>
     db \<times> (response + place \<times> number \<times> checkin_doc \<times> user)" where
  "checkin_load e st uid placeId coordinates =
     (case Place st placeId of
        None \<Rightarrow> (st, Inl (failure 404 ''Place not found''))
      | Some place \<Rightarrow>
          let lng = fst coordinates; lat = snd coordinates;
              distance = calculateDistance (runtime e) (Num lat) (Num lng)
                           (Num (snd (place_coordinates place)))
                           (Num (fst (place_coordinates place)))
          in if js_greater distance (Num 20) then
               (st, Inl (failure 400 (''Too far from place. You are ''
                                        @ show_rounded (Math_round distance)
                                        @ ''m away. Must be within 20 meters.'')))
             else if js_less distance (Num 10) then
               (st, Inl (failure 400 (''Too close to place. You are ''
                                        @ show_rounded (Math_round distance)
                                        @ ''m away. Must be at least 10 meters away.'')))
             else
               (case find (checkedInToday e uid placeId) (Checkin st) of
                  Some existingCheckin \<Rightarrow>
                    (st, Inl (failure 409 ''Already checked in at this place today''))
                | None \<Rightarrow>
                    let created = \<lparr>checkin_id = freshId e, checkin_userId = uid,
                                   checkin_placeId = placeId, checkin_coordinates = (lng, lat),
                                   checkin_timestamp = now2 e\<rparr>;
                        st1 = st\<lparr>Checkin := Checkin st @ [created]\<rparr>
                    in (case User st1 uid of
                          None \<Rightarrow> (st1, Inl serverError)
                        | Some user \<Rightarrow> (st1, Inr (place, distance, created, user)))))"

text \<open>\<open>checkin_commit\<close> is lines 71-99: add the points, save, log the ledger entry, answer 201.\<close>

definition checkin_commit ::
  "env \<Rightarrow> db \<Rightarrow> objectId \<Rightarrow> objectId \<Rightarrow> place \<Rightarrow> number \<Rightarrow> checkin_doc \<Rightarrow> user \<Rightarrow>
     db \<times> response" where
  "checkin_commit e st uid placeId place distance created user =
     (let pointsAwarded = 10;
          user' = user\<lparr>rewardPoints_total := rewardPoints_total user + pointsAwarded\<rparr>
      in case save_user st uid user' [] of
           None \<Rightarrow> (st, serverError)
         | Some st2 \<Rightarrow>
             (create_history st2
                \<lparr>history_userId = uid, amount = pointsAwarded,
                 reason = ''Check-in at '' @ place_name place,
                 history_timestamp = now3 e\<rparr>,
              Response 201 True ''Check-in successful! Points awarded.''
                (Some (CheckinData (checkin_id created) placeId (place_name place)
                         (Math_round distance) pointsAwarded (rewardPoints_total user')
                         (checkin_timestamp created)))))"

definition checkin :: "env \<Rightarrow> db \<Rightarrow> objectId \<Rightarrow> objectId \<Rightarrow> real \<times> real \<Rightarrow> db \<times> response" where
  "checkin e st uid placeId coordinates =
     (case checkin_load e st uid placeId coordinates of
        (st1, Inl r) \<Rightarrow> (st1, r)
      | (st1, Inr (place, distance, created, user)) \<Rightarrow>
          checkin_commit e st1 uid placeId place distance created user)"

text \<open>
  The route \<^verbatim>\<open>router.post('/', auth, validateCheckin, ...)\<close>: \<^verbatim>\<open>validateCheckin\<close> answers 400 to a
  claimed position out of range before the handler runs. (That the body names a place and
  holds an array of two numbers is in the types here.)
\<close>

definition checkin_route ::
  "env \<Rightarrow> db \<Rightarrow> objectId \<Rightarrow> objectId \<Rightarrow> real \<times> real \<Rightarrow> db \<times> response" where
  "checkin_route e st uid placeId coordinates =
     (if \<not> validateCoordinates (snd coordinates) (fst coordinates) then
        (st, failure 400
               ''Invalid coordinates. Latitude must be -90 to 90, longitude -180 to 180'')
      else checkin e st uid placeId coordinates)"

section \<open>Reward redemption engine\<close>

text \<open>\<^verbatim>\<open>reward.validUntil && new Date() > reward.validUntil\<close>\<close>

definition expired :: "reward \<Rightarrow> date \<Rightarrow> bool" where
  "expired r now = (case validUntil r of None \<Rightarrow> False | Some v \<Rightarrow> now > v)"

definition insufficient :: "int \<Rightarrow> int \<Rightarrow> string" where
  "insufficient cost balance =
     ''Insufficient points. You need '' @ show_int cost @ '' points but have '' @ show_int balance"

text \<open>
  \<^verbatim>\<open>router.post('/:id/redeem')\<close> of the rewards router, lines 82-167, split where the handler
  stops reading and starts writing. \<open>redeem_check\<close> is lines 84-121: it loads the reward
  and the user and answers the first failed precondition, or hands on the two loaded
  documents.
\<close>

definition redeem_check :: "env \<Rightarrow> db \<Rightarrow> objectId \<Rightarrow> objectId \<Rightarrow> response + reward \<times> user" where
  "redeem_check e st uid rid =
     (case Reward st rid of
        None \<Rightarrow> Inl (failure 404 ''Reward not found'')
      | Some reward \<Rightarrow>
          if \<not> isActive reward then Inl (failure 400 ''Reward is not available'')
          else if expired reward (now1 e) then Inl (failure 400 ''Reward has expired'')
          else (case User st uid of
                  None \<Rightarrow> Inl (failure 404 ''User not found'')
                | Some user \<Rightarrow>
                    if rewardPoints_total user < reward_pointsCost reward then
                      Inl (failure 400 (insufficient (reward_pointsCost reward)
                                                     (rewardPoints_total user)))
                    else Inr (reward, user)))"

text \<open>
  \<open>redeem_commit\<close> is lines 123-159: deduct on the loaded document, push the snapshot, save,
  log the negative history entry and answer 200.
\<close>

definition redeem_commit :: "env \<Rightarrow> db \<Rightarrow> objectId \<Rightarrow> objectId \<Rightarrow> reward \<Rightarrow> user \<Rightarrow> db \<times> response" where
  "redeem_commit e st uid rid reward user =
     (let snapshot = \<lparr>redeemed_name = reward_name reward,
                      redeemed_shortDescription = reward_shortDescription reward,
                      redeemed_pointsCost = reward_pointsCost reward,
                      redeemedAt = now2 e\<rparr>;
          user' = user\<lparr>rewardPoints_total := rewardPoints_total user - reward_pointsCost reward,
                      user_rewards := user_rewards user @ [snapshot]\<rparr>
      in case save_user st uid user' [snapshot] of
           None \<Rightarrow> (st, serverError)
         | Some st1 \<Rightarrow>
             (create_history st1
                \<lparr>history_userId = uid, amount = - reward_pointsCost reward,
                 reason = ''Redeemed reward: '' @ reward_name reward,
                 history_timestamp = now3 e\<rparr>,
              Response 200 True ''Reward redeemed successfully!''
                (Some (RewardData rid (reward_name reward) (reward_shortDescription reward)
                         (reward_kind reward) (reward_pointsCost reward)
                         (rewardPoints_total user')))))"

definition redeem :: "env \<Rightarrow> db \<Rightarrow> objectId \<Rightarrow> objectId \<Rightarrow> db \<times> response" where
  "redeem e st uid rid =
     (case redeem_check e st uid rid of
        Inl r \<Rightarrow> (st, r)
      | Inr (reward, user) \<Rightarrow> redeem_commit e st uid rid reward user)"

section \<open>Place redemption engine\<close>

text \<open>
  \<^verbatim>\<open>router.post('/:id/redeem')\<close> of the places router, \<^verbatim>\<open>src/routes/checkins.js\<close> lines 328-364.
  \<^verbatim>\<open>place.redemption.pointsCost || 0\<close> reads an absent cost (and 0) as 0.
\<close>

definition redeem_place :: "env \<Rightarrow> db \<Rightarrow> objectId \<Rightarrow> objectId \<Rightarrow> db \<times> response" where
  "redeem_place e st uid pid =
     (case Place st pid of
        None \<Rightarrow> (st, failure 404 ''Place not found'')
      | Some place \<Rightarrow>
          (case place_redemption place of
             None \<Rightarrow> (st, failure 400 ''Place not eligible for redemption'')
           | Some r \<Rightarrow>
               if eligible r \<noteq> Some True then
                 (st, failure 400 ''Place not eligible for redemption'')
               else
                 let pointsAwarded = (case redemption_pointsCost r of None \<Rightarrow> 0 | Some n \<Rightarrow> n)
                 in (case User st uid of
                       None \<Rightarrow> (st, failure 404 ''User not found'')
                     | Some user \<Rightarrow>
                         let user' = user\<lparr>rewardPoints_total :=
                                           rewardPoints_total user + pointsAwarded\<rparr>
                         in (case save_user st uid user' [] of
                               None \<Rightarrow> (st, serverError)
                             | Some st1 \<Rightarrow>
                                 (create_history st1
                                    \<lparr>history_userId = uid, amount = pointsAwarded,
                                     reason = ''Redeemed at '' @ place_name place,
                                     history_timestamp = now1 e\<rparr>,
                                  Response 200 True ''Redemption successful! Points awarded.''
                                    (Some (PlaceRedeemData pointsAwarded
                                             (rewardPoints_total user'))))))))"

section \<open>Requests, runs and interleavings\<close>

text \<open>The three core operations as requests, and a store serving requests one at a time.\<close>

datatype request =
    CheckinReq objectId objectId "real \<times> real"
  | RedeemReq objectId objectId
  | RedeemPlaceReq objectId objectId

fun handle :: "env \<Rightarrow> db \<Rightarrow> request \<Rightarrow> db \<times> response" where
  "handle e st (CheckinReq uid pid c) = checkin_route e st uid pid c"
| "handle e st (RedeemReq uid rid) = redeem e st uid rid"
| "handle e st (RedeemPlaceReq uid pid) = redeem_place e st uid pid"

fun run :: "db \<Rightarrow> (env \<times> request) list \<Rightarrow> db \<times> response list" where
  "run st [] = (st, [])"
| "run st (x # xs) =
     (let (st1, r) = handle (fst x) st (snd x);
          (st2, rs) = run st1 xs
      in (st2, r # rs))"

text \<open>
  Node runs a handler without interruption between two \<^verbatim>\<open>await\<close>s, so requests in flight
  interleave only there. A reward redemption in flight is modelled at the boundary
  between its reads and its writes: \<open>Pending\<close> has read nothing, \<open>Loaded\<close> holds the reward
  and user documents it read and checked, \<open>Done\<close> has answered. A schedule names which
  request advances next.
\<close>

datatype task =
    Pending env objectId objectId
  | Loaded env objectId objectId reward user
  | Done response

fun advance :: "db \<Rightarrow> task \<Rightarrow> db \<times> task" where
  "advance st (Pending e uid rid) =
     (case redeem_check e st uid rid of
        Inl r \<Rightarrow> (st, Done r)
      | Inr (reward, user) \<Rightarrow> (st, Loaded e uid rid reward user))"
| "advance st (Loaded e uid rid reward user) =
     (let (st1, r) = redeem_commit e st uid rid reward user in (st1, Done r))"
| "advance st (Done r) = (st, Done r)"

fun schedule :: "db \<Rightarrow> task list \<Rightarrow> nat list \<Rightarrow> db \<times> task list" where
  "schedule st ts [] = (st, ts)"
| "schedule st ts (i # rest) =
     (if i < length ts then
        (let (st1, t) = advance st (ts ! i) in schedule st1 (ts[i := t]) rest)
      else schedule st ts rest)"




section \<open>Quantities the properties speak about\<close>

text \<open>The distance the check-in handler computes for a place and a claimed position.\<close>

definition dist_to :: "runtime \<Rightarrow> place \<Rightarrow> real \<times> real \<Rightarrow> number" where
  "dist_to rt p c =
     calculateDistance rt (Num (snd c)) (Num (fst c))
       (Num (snd (place_coordinates p))) (Num (fst (place_coordinates p)))"


definition points_ok :: "db \<Rightarrow> objectId \<Rightarrow> bool" where
  "points_ok st uid = (case User st uid of None \<Rightarrow> True | Some u \<Rightarrow> 0 \<le> rewardPoints_total u)"


text \<open>The documents the three flows write: the snapshot and the ledger entries.\<close>

definition redeemed_of :: "env \<Rightarrow> reward \<Rightarrow> redeemed" where
  "redeemed_of e rw =
     \<lparr>redeemed_name = reward_name rw, redeemed_shortDescription = reward_shortDescription rw,
      redeemed_pointsCost = reward_pointsCost rw, redeemedAt = now2 e\<rparr>"

definition debit_of :: "env \<Rightarrow> objectId \<Rightarrow> reward \<Rightarrow> history" where
  "debit_of e uid rw =
     \<lparr>history_userId = uid, amount = - reward_pointsCost rw,
      reason = ''Redeemed reward: '' @ reward_name rw, history_timestamp = now3 e\<rparr>"

definition checkin_credit_of :: "env \<Rightarrow> objectId \<Rightarrow> place \<Rightarrow> history" where
  "checkin_credit_of e uid p =
     \<lparr>history_userId = uid, amount = 10,
      reason = ''Check-in at '' @ place_name p, history_timestamp = now3 e\<rparr>"

definition checkin_of :: "env \<Rightarrow> objectId \<Rightarrow> objectId \<Rightarrow> real \<times> real \<Rightarrow> checkin_doc" where
  "checkin_of e uid pid c =
     \<lparr>checkin_id = freshId e, checkin_userId = uid, checkin_placeId = pid,
      checkin_coordinates = c, checkin_timestamp = now2 e\<rparr>"

definition place_credit_of :: "env \<Rightarrow> objectId \<Rightarrow> place \<Rightarrow> int \<Rightarrow> history" where
  "place_credit_of e uid p n =
     \<lparr>history_userId = uid, amount = n,
      reason = ''Redeemed at '' @ place_name p, history_timestamp = now1 e\<rparr>"

text \<open>\<^verbatim>\<open>place.redemption && place.redemption.eligible\<close> and \<^verbatim>\<open>place.redemption.pointsCost || 0\<close>.\<close>

definition eligible_place :: "place \<Rightarrow> bool" where
  "eligible_place p =
     (case place_redemption p of None \<Rightarrow> False | Some r \<Rightarrow> eligible r = Some True)"

definition place_award :: "place \<Rightarrow> int" where
  "place_award p =
     (case place_redemption p of
        None \<Rightarrow> 0
      | Some r \<Rightarrow> (case redemption_pointsCost r of None \<Rightarrow> 0 | Some n \<Rightarrow> n))"

text \<open>
  The pairing of balance and ledger: between \<open>st\<close> and \<open>st'\<close> either user documents and
  ledger are untouched, or one user was saved with a validated document and exactly one
  ledger entry for that user was appended whose amount is the change of the total.
\<close>

definition paired_update :: "db \<Rightarrow> db \<Rightarrow> bool" where
  "paired_update st st' \<longleftrightarrow>
     (User st' = User st \<and> RewardHistory st' = RewardHistory st) \<or>
     (\<exists>uid u u' h. User st uid = Some u \<and> User st' = (User st)(uid \<mapsto> u') \<and>
        validateUser u' \<and>
        RewardHistory st' = RewardHistory st @ [h] \<and> history_userId h = uid \<and>
        rewardPoints_total u' = rewardPoints_total u + amount h)"


section \<open>Example data\<close>

text \<open>
  The examples run on an idealised runtime: arithmetic and \<^verbatim>\<open>Math\<close> functions are exact on
  real numbers (a square root of a negative number and a division by zero give \<^verbatim>\<open>NaN\<close>),
  and the server's zone is UTC.
\<close>

definition lift1 :: "(real \<Rightarrow> real) \<Rightarrow> number \<Rightarrow> number" where
  "lift1 f a = (case a of NaN \<Rightarrow> NaN | Num x \<Rightarrow> Num (f x))"

definition lift2 :: "(real \<Rightarrow> real \<Rightarrow> real) \<Rightarrow> number \<Rightarrow> number \<Rightarrow> number" where
  "lift2 f a b =
     (case a of NaN \<Rightarrow> NaN | Num x \<Rightarrow> (case b of NaN \<Rightarrow> NaN | Num y \<Rightarrow> Num (f x y)))"

definition atan2 :: "real \<Rightarrow> real \<Rightarrow> real" where
  "atan2 y x =
     (if 0 < x then arctan (y / x)
      else if x < 0 then (if 0 \<le> y then arctan (y / x) + pi else arctan (y / x) - pi)
      else if 0 < y then pi / 2
      else if y < 0 then - (pi / 2)
      else 0)"

definition demo_runtime :: runtime where
  "demo_runtime =
     \<lparr>fmul = lift2 (\<lambda>x y. x * y),
      fdiv = (\<lambda>a b. if b = Num 0 then NaN else lift2 (\<lambda>x y. x / y) a b),
      fadd = lift2 (\<lambda>x y. x + y),
      fsub = lift2 (\<lambda>x y. x - y),
      Math_sin = lift1 sin,
      Math_cos = lift1 cos,
      Math_sqrt = (\<lambda>a. if js_less a (Num 0) then NaN else lift1 sqrt a),
      Math_atan2 = lift2 atan2,
      Math_PI = Num pi,
      startOfLocalDay = (\<lambda>t. t - t mod 86400000),
      nextLocalDay = (\<lambda>t. t + 86400000)\<rparr>"

text \<open>The latitude, in degrees, of the point \<open>d\<close> metres due north of the equator.\<close>

definition lat_north :: "real \<Rightarrow> real" where
  "lat_north d = 180 * d / (6371000 * pi)"

definition demo_env :: env where
  "demo_env = \<lparr>runtime = demo_runtime, now1 = 1000, now2 = 1001, now3 = 1002,
                freshId = 71\<rparr>"

text \<open>A request later on the same server-local day.\<close>

definition demo_later :: env where
  "demo_later = \<lparr>runtime = demo_runtime, now1 = 5000, now2 = 5001, now3 = 5002,
                  freshId = 72\<rparr>"


text \<open>Places 10 m, 20 m and one degree north of the position \<open>(0, 0)\<close>.\<close>

definition demo_cafe :: place where
  "demo_cafe = \<lparr>place_name = ''Cafe'', place_coordinates = (0, lat_north 10),
                 place_redemption = Some \<lparr>eligible = Some True, redemption_pointsCost = Some 5\<rparr>\<rparr>"

definition demo_park :: place where
  "demo_park = \<lparr>place_name = ''Park'', place_coordinates = (0, lat_north 20),
                 place_redemption = Some \<lparr>eligible = Some True, redemption_pointsCost = None\<rparr>\<rparr>"

definition demo_pier :: place where
  "demo_pier = \<lparr>place_name = ''Pier'', place_coordinates = (0, 1), place_redemption = None\<rparr>"

definition demo_coffee :: reward where
  "demo_coffee = \<lparr>reward_name = ''Coffee'', reward_shortDescription = ''Free coffee'',
                   reward_pointsCost = 30, reward_kind = Voucher, isActive = True,
                   validUntil = None\<rparr>"

definition demo_sticker :: reward where
  "demo_sticker = \<lparr>reward_name = ''Sticker'', reward_shortDescription = ''A sticker'',
                    reward_pointsCost = 10, reward_kind = Gift, isActive = True,
                    validUntil = None\<rparr>"

text \<open>
  Users 41 (50 points) and 42 (fresh), places 51 to 53, and reward 61 costing 30 points,
  with a withdrawn copy 62, a copy 63 that expired at time 500, a copy 64 that is both, a
  copy 65 valid until time 1000, and reward 66 costing 10 points.
\<close>

definition demo_db :: db where
  "demo_db =
     \<lparr>User = [41 \<mapsto> \<lparr>rewardPoints_total = 50, user_rewards = []\<rparr>,
              42 \<mapsto> \<lparr>rewardPoints_total = 0, user_rewards = []\<rparr>],
      Place = [51 \<mapsto> demo_cafe, 52 \<mapsto> demo_park, 53 \<mapsto> demo_pier],
      Reward = [61 \<mapsto> demo_coffee,
                62 \<mapsto> demo_coffee\<lparr>isActive := False\<rparr>,
                63 \<mapsto> demo_coffee\<lparr>validUntil := Some 500\<rparr>,
                64 \<mapsto> demo_coffee\<lparr>isActive := False, validUntil := Some 500\<rparr>,
                65 \<mapsto> demo_coffee\<lparr>validUntil := Some 1000\<rparr>,
                66 \<mapsto> demo_sticker],
      Checkin = [], RewardHistory = []\<rparr>"

text \<open>The store after user 41 checked in at the Cafe from \<open>(0, 0)\<close>.\<close>

definition demo_checked_in :: db where
  "demo_checked_in = fst (checkin_route demo_env demo_db 41 51 (0, 0))"



definition demo_requests :: "(env \<times> request) list" where
  "demo_requests = [(demo_env, CheckinReq 42 52 (0, 0)), (demo_later, RedeemPlaceReq 42 51),
                    (demo_later, RedeemReq 42 61)]"

text \<open>The stores after user 41 redeemed reward 61, starting from each of the two above.\<close>

definition demo_redeemed :: db where
  "demo_redeemed = fst (redeem demo_env demo_db 41 61)"

definition demo_checked_in_redeemed :: db where
  "demo_checked_in_redeemed = fst (redeem demo_env demo_checked_in 41 61)"

section \<open>Distance calculator: facts\<close>

lemma js_less_Num [simp]: "js_less (Num x) (Num y) \<longleftrightarrow> x < y"
  by (simp add: js_less_def)

lemma js_greater_Num [simp]: "js_greater (Num x) (Num y) \<longleftrightarrow> y < x"
  by (simp add: js_greater_def)

lemma js_compare_NaN [simp]:
  "\<not> js_less NaN b" "\<not> js_less a NaN" "\<not> js_greater NaN b" "\<not> js_greater a NaN"
  by (simp_all add: js_less_def js_greater_def split: number.splits)

text \<open>
  A computed distance passes both band tests of the handler when it is a number from 10
  to 20, and when it is \<^verbatim>\<open>NaN\<close>.
\<close>

lemma in_band_iff:
  "\<not> js_greater d (Num 20) \<and> \<not> js_less d (Num 10) \<longleftrightarrow>
     d = NaN \<or> (\<exists>x. d = Num x \<and> 10 \<le> x \<and> x \<le> 20)"
  by (cases d) auto

lemma atan2_sin_cos:
  assumes "0 \<le> x" "x < pi / 2"
  shows "atan2 (sqrt (sin x * sin x)) (sqrt (1 - sin x * sin x)) = x"
proof -
  have s: "0 \<le> sin x" using assms by (intro sin_ge_zero) (auto simp: field_simps)
  have c: "0 < cos x" using assms by (intro cos_gt_zero_pi) auto
  have "1 - sin x * sin x = cos x * cos x"
    using sin_cos_squared_add3 [of x] by (simp add: algebra_simps)
  then have c2: "sqrt (1 - sin x * sin x) = cos x" using c by simp
  have s2: "sqrt (sin x * sin x) = sin x" using s by simp
  have t: "arctan (sin x / cos x) = x"
    using arctan_tan [of x] assms by (simp add: tan_def)
  show ?thesis unfolding c2 s2 atan2_def using c t by simp
qed

text \<open>
  In exact arithmetic the distance computed along a meridian is the arc length of the
  latitude difference.
\<close>

lemma calculateDistance_meridian:
  assumes "lat1 \<le> lat2" "lat2 - lat1 < 180"
  shows "calculateDistance demo_runtime (Num lat1) (Num lng) (Num lat2) (Num lng) =
           Num (6371000 * ((lat2 - lat1) * pi / 180))"
proof -
  define x where "x = (lat2 - lat1) * pi / 180 / 2"
  have x0: "0 \<le> x" using assms by (simp add: x_def)
  have "(lat2 - lat1) * pi < 180 * pi" using assms by simp
  then have x1: "x < pi / 2" by (simp add: x_def)
  have "sin x * sin x + cos x * cos x = 1"
    using sin_cos_squared_add3 [of x] by (simp add: algebra_simps)
  moreover have "0 \<le> cos x * cos x" by simp
  ultimately have le1: "\<not> 1 - sin x * sin x < 0" by linarith
  have "calculateDistance demo_runtime (Num lat1) (Num lng) (Num lat2) (Num lng)
          = Num (6371000 * (2 * atan2 (sqrt (sin x * sin x)) (sqrt (1 - sin x * sin x))))"
    using le1
    by (simp add: calculateDistance_def demo_runtime_def lift1_def lift2_def Let_def x_def)
  also have "\<dots> = Num (6371000 * (2 * x))" by (simp only: atan2_sin_cos [OF x0 x1])
  finally show ?thesis by (simp add: x_def)
qed

lemma calculateDistance_lat_north:
  assumes "a \<le> b" "b - a < 6371000"
  shows "calculateDistance demo_runtime (Num (lat_north a)) (Num lng) (Num (lat_north b))
           (Num lng) = Num (b - a)"
proof -
  have le: "lat_north a \<le> lat_north b"
    using assms by (simp add: lat_north_def divide_right_mono)
  have eq: "lat_north b - lat_north a = 180 * (b - a) / (6371000 * pi)"
    by (simp add: lat_north_def diff_divide_distrib algebra_simps)
  have "180 * (b - a) / (6371000 * pi) \<le> 180 * (b - a) / (6371000 * 2)"
    using pi_ge_two assms by (intro divide_left_mono) auto
  also have "\<dots> < 180" using assms by simp
  finally have lt: "lat_north b - lat_north a < 180" by (simp only: eq)
  have "calculateDistance demo_runtime (Num (lat_north a)) (Num lng) (Num (lat_north b))
           (Num lng) = Num (6371000 * ((lat_north b - lat_north a) * pi / 180))"
    by (rule calculateDistance_meridian [OF le lt])
  also have "\<dots> = Num (b - a)" by (simp add: eq)
  finally show ?thesis .
qed

lemma lat_north_0: "lat_north 0 = 0"
  by (simp add: lat_north_def)

text \<open>The positions used in the examples below pass the validation.\<close>

lemma lat_north_valid:
  assumes "\<bar>d\<bar> \<le> 6371000"
  shows "validateCoordinates (lat_north d) 0"
proof -
  have "\<bar>lat_north d\<bar> = 180 * \<bar>d\<bar> / (6371000 * pi)"
    by (simp add: lat_north_def abs_mult)
  also have "\<dots> \<le> 180 * \<bar>d\<bar> / (6371000 * 2)"
    using pi_ge_two by (intro divide_left_mono) auto
  also have "\<dots> \<le> 90" using assms by simp
  finally show ?thesis by (simp add: validateCoordinates_def abs_le_iff)
qed

lemma demo_positions_valid:
  "validateCoordinates (snd (0, 0)) (fst (0, 0))"
  "validateCoordinates (snd (0, lat_north 10)) (fst (0, lat_north 10))"
  "validateCoordinates (snd (0, lat_north (- 0.0001))) (fst (0, lat_north (- 0.0001)))"
  "validateCoordinates (snd (0, lat_north (- 15))) (fst (0, lat_north (- 15)))"
  by (simp_all add: lat_north_valid) (simp_all add: validateCoordinates_def)

lemma calculateDistance_from_origin:
  assumes "0 \<le> d" "d < 6371000"
  shows "calculateDistance demo_runtime (Num 0) (Num lng) (Num (lat_north d)) (Num lng) = Num d"
  using calculateDistance_lat_north [of 0 d lng] assms by (simp add: lat_north_0)

lemma demo_runtimes: "runtime demo_env = demo_runtime" "runtime demo_later = demo_runtime"
  by (simp_all add: demo_env_def demo_later_def)

lemma dist_to_cafe: "dist_to demo_runtime demo_cafe (0, 0) = Num 10"
  by (simp add: dist_to_def demo_cafe_def calculateDistance_from_origin)




lemma dist_to_cafe_itself: "dist_to demo_runtime demo_cafe (0, lat_north 10) = Num 0"
  by (simp add: dist_to_def demo_cafe_def calculateDistance_lat_north)

lemma dist_to_cafe_far: "dist_to demo_runtime demo_cafe (0, lat_north (- 15)) = Num 25"
  by (simp add: dist_to_def demo_cafe_def calculateDistance_lat_north)



section \<open>Check-in verifier: facts\<close>


lemma checkin_route_valid:
  "validateCoordinates (snd c) (fst c) \<Longrightarrow> checkin_route e st uid pid c = checkin e st uid pid c"
  by (simp add: checkin_route_def)

lemma checkin_route_invalid:
  "\<not> validateCoordinates (snd c) (fst c) \<Longrightarrow>
     checkin_route e st uid pid c =
       (st, failure 400
              ''Invalid coordinates. Latitude must be -90 to 90, longitude -180 to 180'')"
  by (simp add: checkin_route_def)

lemma checkin_no_place:
  "Place st pid = None \<Longrightarrow> checkin e st uid pid c = (st, failure 404 ''Place not found'')"
  by (simp add: checkin_def checkin_load_def)

lemma checkin_too_far:
  assumes "Place st pid = Some p" "js_greater (dist_to (runtime e) p c) (Num 20)"
  shows "checkin e st uid pid c =
           (st, failure 400 (''Too far from place. You are ''
                               @ show_rounded (Math_round (dist_to (runtime e) p c))
                               @ ''m away. Must be within 20 meters.''))"
  using assms by (simp add: checkin_def checkin_load_def dist_to_def Let_def)

lemma checkin_too_close:
  assumes "Place st pid = Some p" "\<not> js_greater (dist_to (runtime e) p c) (Num 20)"
    and "js_less (dist_to (runtime e) p c) (Num 10)"
  shows "checkin e st uid pid c =
           (st, failure 400 (''Too close to place. You are ''
                               @ show_rounded (Math_round (dist_to (runtime e) p c))
                               @ ''m away. Must be at least 10 meters away.''))"
  using assms by (simp add: checkin_def checkin_load_def dist_to_def Let_def)

lemma checkin_again:
  assumes "Place st pid = Some p" "\<not> js_greater (dist_to (runtime e) p c) (Num 20)"
    and "\<not> js_less (dist_to (runtime e) p c) (Num 10)"
    and "find (checkedInToday e uid pid) (Checkin st) = Some k"
  shows "checkin e st uid pid c = (st, failure 409 ''Already checked in at this place today'')"
  using assms by (simp add: checkin_def checkin_load_def dist_to_def Let_def)

text \<open>What the first part of the handler hands on when every test passes.\<close>

lemma checkin_load_passes:
  assumes "Place st pid = Some p" "\<not> js_greater (dist_to (runtime e) p c) (Num 20)"
    and "\<not> js_less (dist_to (runtime e) p c) (Num 10)"
    and "find (checkedInToday e uid pid) (Checkin st) = None"
    and "User st uid = Some u"
  shows "checkin_load e st uid pid c =
           (st\<lparr>Checkin := Checkin st @ [checkin_of e uid pid c]\<rparr>,
            Inr (p, dist_to (runtime e) p c, checkin_of e uid pid c, u))"
  using assms by (simp add: checkin_load_def dist_to_def Let_def checkin_of_def)

lemma checkin_load_no_user:
  assumes "Place st pid = Some p" "\<not> js_greater (dist_to (runtime e) p c) (Num 20)"
    and "\<not> js_less (dist_to (runtime e) p c) (Num 10)"
    and "find (checkedInToday e uid pid) (Checkin st) = None"
    and "User st uid = None"
  shows "checkin e st uid pid c =
           (st\<lparr>Checkin := Checkin st @ [checkin_of e uid pid c]\<rparr>, serverError)"
  using assms by (simp add: checkin_def checkin_load_def dist_to_def Let_def checkin_of_def)

text \<open>The second part, for a user document that is the stored one.\<close>

lemma checkin_commit_stored:
  assumes "User st uid = Some u"
    and "validateUser (u\<lparr>rewardPoints_total := rewardPoints_total u + 10\<rparr>)"
  shows "checkin_commit e st uid pid p d k u =
           (st\<lparr>User := (User st)(uid \<mapsto> u\<lparr>rewardPoints_total := rewardPoints_total u + 10\<rparr>),
               RewardHistory := RewardHistory st @ [checkin_credit_of e uid p]\<rparr>,
            Response 201 True ''Check-in successful! Points awarded.''
              (Some (CheckinData (checkin_id k) pid (place_name p) (Math_round d) 10
                       (rewardPoints_total u + 10) (checkin_timestamp k))))"
  using assms
  by (simp add: checkin_commit_def Let_def save_user_def create_history_def
      checkin_credit_of_def)

lemma checkin_commit_rejected:
  assumes "\<not> validateUser (u\<lparr>rewardPoints_total := rewardPoints_total u + 10\<rparr>)"
  shows "checkin_commit e st uid pid p d k u = (st, serverError)"
  using assms by (simp add: checkin_commit_def Let_def save_user_def)

lemma checkin_in_band:
  assumes "Place st pid = Some p" "User st uid = Some u"
    and "validateUser (u\<lparr>rewardPoints_total := rewardPoints_total u + 10\<rparr>)"
    and "find (checkedInToday e uid pid) (Checkin st) = None"
    and "\<not> js_greater (dist_to (runtime e) p c) (Num 20)"
    and "\<not> js_less (dist_to (runtime e) p c) (Num 10)"
  shows "checkin e st uid pid c =
           (st\<lparr>Checkin := Checkin st @ [checkin_of e uid pid c],
               User := (User st)(uid \<mapsto> u\<lparr>rewardPoints_total := rewardPoints_total u + 10\<rparr>),
               RewardHistory := RewardHistory st @ [checkin_credit_of e uid p]\<rparr>,
            Response 201 True ''Check-in successful! Points awarded.''
              (Some (CheckinData (freshId e) pid (place_name p)
                       (Math_round (dist_to (runtime e) p c)) 10
                       (rewardPoints_total u + 10) (now2 e))))"
proof -
  let ?st1 = "st\<lparr>Checkin := Checkin st @ [checkin_of e uid pid c]\<rparr>"
  have l: "checkin_load e st uid pid c =
      (?st1, Inr (p, dist_to (runtime e) p c, checkin_of e uid pid c, u))"
    by (rule checkin_load_passes [OF assms(1,5,6,4,2)])
  have u1: "User ?st1 uid = Some u" using assms(2) by simp
  show ?thesis
    apply (simp only: checkin_def l prod.case sum.case checkin_commit_stored [OF u1 assms(3)])
    apply (simp add: checkin_of_def)
    done
qed

lemma demo_places:
  "Place demo_db 51 = Some demo_cafe" "Place demo_db 52 = Some demo_park"
  "Place demo_db 53 = Some demo_pier"
  by (simp_all add: demo_db_def)

lemma demo_users:
  "User demo_db 41 = Some \<lparr>rewardPoints_total = 50, user_rewards = []\<rparr>"
  "User demo_db 42 = Some \<lparr>rewardPoints_total = 0, user_rewards = []\<rparr>"
  by (simp_all add: demo_db_def)

lemma demo_no_checkins: "Checkin demo_db = []"
  by (simp add: demo_db_def)

lemma demo_no_history: "RewardHistory demo_db = []"
  by (simp add: demo_db_def)

lemma demo_names: "place_name demo_cafe = ''Cafe''" "place_name demo_park = ''Park''"
  by (simp_all add: demo_cafe_def demo_park_def)

lemma demo_first_checkin:
  "checkin_route demo_env demo_db 41 51 (0, 0) =
     (demo_db\<lparr>Checkin := [\<lparr>checkin_id = 71, checkin_userId = 41, checkin_placeId = 51,
                            checkin_coordinates = (0, 0), checkin_timestamp = 1001\<rparr>],
              User := (User demo_db)(41 \<mapsto> \<lparr>rewardPoints_total = 60, user_rewards = []\<rparr>),
              RewardHistory := [\<lparr>history_userId = 41, amount = 10,
                                  reason = ''Check-in at Cafe'', history_timestamp = 1002\<rparr>]\<rparr>,
      Response 201 True ''Check-in successful! Points awarded.''
        (Some (CheckinData 71 51 ''Cafe'' (Some 10) 10 60 1001)))"
proof -
  have v: "validateUser (\<lparr>rewardPoints_total = 50, user_rewards = []\<rparr>
             \<lparr>rewardPoints_total :=
                rewardPoints_total \<lparr>rewardPoints_total = 50, user_rewards = []\<rparr> + 10\<rparr>)"
    by (simp add: validateUser_def)
  have n: "find (checkedInToday demo_env 41 51) (Checkin demo_db) = None"
    by (simp add: demo_no_checkins)
  have "\<not> js_greater (dist_to (runtime demo_env) demo_cafe (0, 0)) (Num 20)"
    "\<not> js_less (dist_to (runtime demo_env) demo_cafe (0, 0)) (Num 10)"
    by (simp_all add: demo_runtimes dist_to_cafe)
  from checkin_in_band [OF demo_places(1) demo_users(1) v n this]
  show ?thesis
    by (simp add: checkin_route_valid [OF demo_positions_valid(1)] demo_no_checkins
        demo_no_history demo_names demo_runtimes dist_to_cafe Math_round_def checkin_of_def
        checkin_credit_of_def demo_env_def)
qed

lemma demo_checked_in_Checkin:
  "Checkin demo_checked_in =
     [\<lparr>checkin_id = 71, checkin_userId = 41, checkin_placeId = 51,
       checkin_coordinates = (0, 0), checkin_timestamp = 1001\<rparr>]"
  by (simp add: demo_checked_in_def demo_first_checkin)

lemma demo_checked_in_Place: "Place demo_checked_in = Place demo_db"
  by (simp add: demo_checked_in_def demo_first_checkin)

lemma demo_checked_in_today:
  "checkedInToday demo_later 41 51
     \<lparr>checkin_id = 71, checkin_userId = 41, checkin_placeId = 51,
      checkin_coordinates = (0, 0), checkin_timestamp = 1001\<rparr>"
  by (simp add: checkedInToday_def demo_later_def demo_runtime_def)




text \<open>
  C2. The claim has a second same-day check-in answered 409 whatever its distance. The
  route validates the claimed position and the handler tests the distance before it
  looks for a check-in of the day. On every runtime: when a check-in of the user at the
  place lies within the server-local day of the request, a further attempt is answered
  400 if the claimed position is out of range or the distance the handler computes is
  below 10 or above 20, and 409 in every other case; the store is left as it was.
\<close>

theorem second_checkin_conflict:
  assumes place: "Place st pid = Some p"
    and today: "\<exists>k\<in>set (Checkin st). checkedInToday e uid pid k"
  shows "(\<not> validateCoordinates (snd c) (fst c) \<or>
          js_less (dist_to (runtime e) p c) (Num 10) \<or>
          js_greater (dist_to (runtime e) p c) (Num 20) \<longrightarrow>
            fst (checkin_route e st uid pid c) = st \<and>
            status (snd (checkin_route e st uid pid c)) = 400) \<and>
         (validateCoordinates (snd c) (fst c) \<and>
          \<not> js_less (dist_to (runtime e) p c) (Num 10) \<and>
          \<not> js_greater (dist_to (runtime e) p c) (Num 20) \<longrightarrow>
            checkin_route e st uid pid c =
              (st, failure 409 ''Already checked in at this place today''))"
proof (cases "validateCoordinates (snd c) (fst c)")
  case False
  then show ?thesis by (simp add: checkin_route_invalid failure_def)
next
  case coords: True
  obtain k where k: "find (checkedInToday e uid pid) (Checkin st) = Some k"
    using today by (cases "find (checkedInToday e uid pid) (Checkin st)") (auto simp: find_None_iff)
  note route = checkin_route_valid [OF coords]
  show ?thesis
  proof (cases "js_greater (dist_to (runtime e) p c) (Num 20)")
    case True
    from checkin_too_far [OF place this] True show ?thesis
      by (simp add: route coords failure_def)
  next
    case far: False
    show ?thesis
    proof (cases "js_less (dist_to (runtime e) p c) (Num 10)")
      case True
      from checkin_too_close [OF place far this] True show ?thesis
        by (simp add: route coords failure_def)
    next
      case False
      from checkin_again [OF place far this k] far False show ?thesis
        by (simp add: route coords)
    qed
  qed
qed

theorem second_checkin_conflict_witness:
  "checkin_route demo_later demo_checked_in 41 51 (0, 0) =
     (demo_checked_in, failure 409 ''Already checked in at this place today'') \<and>
   fst (checkin_route demo_later demo_checked_in 41 51 (0, lat_north (- 15))) =
     demo_checked_in \<and>
   status (snd (checkin_route demo_later demo_checked_in 41 51 (0, lat_north (- 15)))) = 400 \<and>
   fst (checkin_route demo_later demo_checked_in 41 51 (360, 0)) = demo_checked_in \<and>
   status (snd (checkin_route demo_later demo_checked_in 41 51 (360, 0))) = 400"
proof -
  have p: "Place demo_checked_in 51 = Some demo_cafe"
    by (simp add: demo_checked_in_Place demo_places)
  have t: "\<exists>k\<in>set (Checkin demo_checked_in). checkedInToday demo_later 41 51 k"
    by (simp add: demo_checked_in_Checkin demo_checked_in_today)
  have far: "\<not> validateCoordinates (snd (360, 0)) (fst (360, 0))"
    by (simp add: validateCoordinates_def)
  note c = second_checkin_conflict [OF p t]
  show ?thesis
    using c [of "(0, 0)"] c [of "(0, lat_north (- 15))"] c [of "(360, 0)"]
      demo_positions_valid(1,4) far
    by (simp add: demo_runtimes dist_to_cafe dist_to_cafe_far)
qed

text \<open>
  With the check-in of the day on record, a second attempt from the place's own position
  (0 m) is answered 400, and so is one from 25 m.
\<close>

theorem second_checkin_distance_counterexample:
  "Checkin demo_checked_in =
     [\<lparr>checkin_id = 71, checkin_userId = 41, checkin_placeId = 51,
       checkin_coordinates = (0, 0), checkin_timestamp = 1001\<rparr>] \<and>
   checkedInToday demo_later 41 51
     \<lparr>checkin_id = 71, checkin_userId = 41, checkin_placeId = 51,
      checkin_coordinates = (0, 0), checkin_timestamp = 1001\<rparr> \<and>
   checkin_route demo_later demo_checked_in 41 51 (0, lat_north 10) =
     (demo_checked_in,
      failure 400 ''Too close to place. You are 0m away. Must be at least 10 meters away.'') \<and>
   status (snd (checkin_route demo_later demo_checked_in 41 51 (0, lat_north (- 15)))) = 400"
proof -
  have p: "Place demo_checked_in 51 = Some demo_cafe"
    by (simp add: demo_checked_in_Place demo_places)
  have near: "\<not> js_greater (dist_to (runtime demo_later) demo_cafe (0, lat_north 10)) (Num 20)"
    "js_less (dist_to (runtime demo_later) demo_cafe (0, lat_north 10)) (Num 10)"
    by (simp_all add: demo_runtimes dist_to_cafe_itself)
  have far: "js_greater (dist_to (runtime demo_later) demo_cafe (0, lat_north (- 15))) (Num 20)"
    by (simp add: demo_runtimes dist_to_cafe_far)
  show ?thesis
    using checkin_too_close [OF p near, of 41] checkin_too_far [OF p far, of 41]
    by (simp add: checkin_route_valid [OF demo_positions_valid(2)]
        checkin_route_valid [OF demo_positions_valid(4)] demo_checked_in_Checkin
        demo_checked_in_today demo_runtimes dist_to_cafe_itself Math_round_def
        show_rounded_def show_int_def show_nat.simps failure_def)
qed

section \<open>Reward redemption engine: facts\<close>

lemma redeem_check_no_reward:
  "Reward st rid = None \<Longrightarrow> redeem_check e st uid rid = Inl (failure 404 ''Reward not found'')"
  by (simp add: redeem_check_def)

lemma redeem_check_inactive:
  "Reward st rid = Some rw \<Longrightarrow> \<not> isActive rw \<Longrightarrow>
     redeem_check e st uid rid = Inl (failure 400 ''Reward is not available'')"
  by (simp add: redeem_check_def)

lemma redeem_check_expired:
  "Reward st rid = Some rw \<Longrightarrow> isActive rw \<Longrightarrow> expired rw (now1 e) \<Longrightarrow>
     redeem_check e st uid rid = Inl (failure 400 ''Reward has expired'')"
  by (simp add: redeem_check_def)

lemma redeem_check_no_user:
  "Reward st rid = Some rw \<Longrightarrow> isActive rw \<Longrightarrow> \<not> expired rw (now1 e) \<Longrightarrow>
   User st uid = None \<Longrightarrow>
     redeem_check e st uid rid = Inl (failure 404 ''User not found'')"
  by (simp add: redeem_check_def)

lemma redeem_check_insufficient:
  "Reward st rid = Some rw \<Longrightarrow> isActive rw \<Longrightarrow> \<not> expired rw (now1 e) \<Longrightarrow>
   User st uid = Some u \<Longrightarrow> rewardPoints_total u < reward_pointsCost rw \<Longrightarrow>
     redeem_check e st uid rid =
       Inl (failure 400 (insufficient (reward_pointsCost rw) (rewardPoints_total u)))"
  by (simp add: redeem_check_def)

lemma redeem_check_passes:
  "Reward st rid = Some rw \<Longrightarrow> isActive rw \<Longrightarrow> \<not> expired rw (now1 e) \<Longrightarrow>
   User st uid = Some u \<Longrightarrow> reward_pointsCost rw \<le> rewardPoints_total u \<Longrightarrow>
     redeem_check e st uid rid = Inr (rw, u)"
  by (simp add: redeem_check_def)

text \<open>Whatever \<open>redeem_check\<close> hands on was read from the store and passed all five checks.\<close>

lemma redeem_check_Inr:
  assumes "redeem_check e st uid rid = Inr (rw, u)"
  shows "Reward st rid = Some rw \<and> isActive rw \<and> \<not> expired rw (now1 e) \<and>
         User st uid = Some u \<and> reward_pointsCost rw \<le> rewardPoints_total u"
  using assms by (auto simp: redeem_check_def split: option.splits if_splits)

lemma redeem_check_Inl:
  assumes "redeem_check e st uid rid = Inl r"
  shows "\<not> success r \<and> status r \<in> {400, 404}"
  using assms by (auto simp: redeem_check_def failure_def split: option.splits if_splits)

lemma redeem_failure:
  "redeem_check e st uid rid = Inl r \<Longrightarrow> redeem e st uid rid = (st, r)"
  by (simp add: redeem_def)

lemma validateUser_debit:
  assumes "validateUser u" "0 \<le> reward_pointsCost rw"
    and "reward_pointsCost rw \<le> rewardPoints_total u"
  shows "validateUser (u\<lparr>rewardPoints_total := rewardPoints_total u - reward_pointsCost rw,
                          user_rewards := user_rewards u @ [redeemed_of e rw]\<rparr>)"
  using assms by (simp add: validateUser_def redeemed_of_def)

text \<open>The debit, for a user document that is the stored one.\<close>

lemma redeem_commit_stored:
  assumes "User st uid = Some u"
    and "validateUser (u\<lparr>rewardPoints_total := rewardPoints_total u - reward_pointsCost rw,
                           user_rewards := user_rewards u @ [redeemed_of e rw]\<rparr>)"
  shows "redeem_commit e st uid rid rw u =
           (st\<lparr>User := (User st)(uid \<mapsto>
                    u\<lparr>rewardPoints_total := rewardPoints_total u - reward_pointsCost rw,
                      user_rewards := user_rewards u @ [redeemed_of e rw]\<rparr>),
               RewardHistory := RewardHistory st @ [debit_of e uid rw]\<rparr>,
            Response 200 True ''Reward redeemed successfully!''
              (Some (RewardData rid (reward_name rw) (reward_shortDescription rw)
                       (reward_kind rw) (reward_pointsCost rw)
                       (rewardPoints_total u - reward_pointsCost rw))))"
  using assms
  by (simp add: redeem_commit_def Let_def save_user_def create_history_def
      redeemed_of_def debit_of_def)

lemma redeem_commit_rejected:
  assumes "\<not> validateUser (u\<lparr>rewardPoints_total := rewardPoints_total u - reward_pointsCost rw,
                             user_rewards := user_rewards u @ [redeemed_of e rw]\<rparr>)"
  shows "redeem_commit e st uid rid rw u = (st, serverError)"
  using assms by (simp add: redeem_commit_def Let_def save_user_def redeemed_of_def)

lemma redeem_success:
  assumes "Reward st rid = Some rw" "isActive rw" "\<not> expired rw (now1 e)"
    and "User st uid = Some u" "reward_pointsCost rw \<le> rewardPoints_total u"
    and "validateUser (u\<lparr>rewardPoints_total := rewardPoints_total u - reward_pointsCost rw,
                           user_rewards := user_rewards u @ [redeemed_of e rw]\<rparr>)"
  shows "redeem e st uid rid =
           (st\<lparr>User := (User st)(uid \<mapsto>
                    u\<lparr>rewardPoints_total := rewardPoints_total u - reward_pointsCost rw,
                      user_rewards := user_rewards u @ [redeemed_of e rw]\<rparr>),
               RewardHistory := RewardHistory st @ [debit_of e uid rw]\<rparr>,
            Response 200 True ''Reward redeemed successfully!''
              (Some (RewardData rid (reward_name rw) (reward_shortDescription rw)
                       (reward_kind rw) (reward_pointsCost rw)
                       (rewardPoints_total u - reward_pointsCost rw))))"
  using assms
  by (simp add: redeem_def redeem_check_passes redeem_commit_stored)

text \<open>What an answer 200 of the handler tells about the request and the store.\<close>

lemma redeem_accepted:
  assumes run: "redeem e st uid rid = (st1, r1)" and ok: "status r1 = 200"
  obtains rw u where "Reward st rid = Some rw" "isActive rw" "\<not> expired rw (now1 e)"
    and "User st uid = Some u" "reward_pointsCost rw \<le> rewardPoints_total u"
    and "validateUser (u\<lparr>rewardPoints_total := rewardPoints_total u - reward_pointsCost rw,
                           user_rewards := user_rewards u @ [redeemed_of e rw]\<rparr>)"
    and "st1 = st\<lparr>User := (User st)(uid \<mapsto>
                    u\<lparr>rewardPoints_total := rewardPoints_total u - reward_pointsCost rw,
                      user_rewards := user_rewards u @ [redeemed_of e rw]\<rparr>),
               RewardHistory := RewardHistory st @ [debit_of e uid rw]\<rparr>"
proof (cases "redeem_check e st uid rid")
  case (Inl r)
  then have "r1 = r" using run by (simp add: redeem_def)
  then show ?thesis using redeem_check_Inl [OF Inl] ok by auto
next
  case (Inr pair)
  obtain rw u where pair: "pair = (rw, u)" by (cases pair)
  note chk = redeem_check_Inr [OF Inr [unfolded pair]]
  let ?u' = "u\<lparr>rewardPoints_total := rewardPoints_total u - reward_pointsCost rw,
                 user_rewards := user_rewards u @ [redeemed_of e rw]\<rparr>"
  have com: "redeem_commit e st uid rid rw u = (st1, r1)"
    using run Inr pair by (simp add: redeem_def)
  have v: "validateUser ?u'"
  proof (rule ccontr)
    assume "\<not> validateUser ?u'"
    then have "r1 = serverError" using com by (simp add: redeem_commit_rejected)
    then show False using ok by (simp add: serverError_def failure_def)
  qed
  have "st1 = st\<lparr>User := (User st)(uid \<mapsto> ?u'),
                  RewardHistory := RewardHistory st @ [debit_of e uid rw]\<rparr>"
    using com chk v by (simp add: redeem_commit_stored)
  then show ?thesis using that chk v by blast
qed

lemma demo_rewards:
  "Reward demo_db 61 = Some demo_coffee"
  "Reward demo_db 62 = Some (demo_coffee\<lparr>isActive := False\<rparr>)"
  "Reward demo_db 63 = Some (demo_coffee\<lparr>validUntil := Some 500\<rparr>)"
  "Reward demo_db 64 = Some (demo_coffee\<lparr>isActive := False, validUntil := Some 500\<rparr>)"
  "Reward demo_db 65 = Some (demo_coffee\<lparr>validUntil := Some 1000\<rparr>)"
  "Reward demo_db 66 = Some demo_sticker"
  "Reward demo_db 99 = None"
  by (simp_all add: demo_db_def)

lemma demo_no_user: "User demo_db 77 = None"
  by (simp add: demo_db_def)

lemma demo_coffee_fields:
  "isActive demo_coffee" "validUntil demo_coffee = None" "reward_pointsCost demo_coffee = 30"
  "reward_name demo_coffee = ''Coffee''" "reward_shortDescription demo_coffee = ''Free coffee''"
  "reward_kind demo_coffee = Voucher"
  by (simp_all add: demo_coffee_def)

lemma demo_coffee_unexpired: "\<not> expired demo_coffee t"
  by (simp add: expired_def demo_coffee_fields)

lemma demo_first_redeem:
  "redeem demo_env demo_db 41 61 =
     (demo_db\<lparr>User := (User demo_db)(41 \<mapsto>
                 \<lparr>rewardPoints_total = 20,
                  user_rewards = [\<lparr>redeemed_name = ''Coffee'',
                                    redeemed_shortDescription = ''Free coffee'',
                                    redeemed_pointsCost = 30, redeemedAt = 1001\<rparr>]\<rparr>),
              RewardHistory := [\<lparr>history_userId = 41, amount = - 30,
                                  reason = ''Redeemed reward: Coffee'',
                                  history_timestamp = 1002\<rparr>]\<rparr>,
      Response 200 True ''Reward redeemed successfully!''
        (Some (RewardData 61 ''Coffee'' ''Free coffee'' Voucher 30 20)))"
proof -
  have v: "validateUser (\<lparr>rewardPoints_total = 50, user_rewards = []\<rparr>
             \<lparr>rewardPoints_total := rewardPoints_total \<lparr>rewardPoints_total = 50, user_rewards = []\<rparr>
                                      - reward_pointsCost demo_coffee,
              user_rewards := user_rewards \<lparr>rewardPoints_total = 50, user_rewards = []\<rparr>
                                @ [redeemed_of demo_env demo_coffee]\<rparr>)"
    by (simp add: validateUser_def redeemed_of_def demo_coffee_fields)
  have c: "reward_pointsCost demo_coffee \<le> rewardPoints_total \<lparr>rewardPoints_total = 50, user_rewards = []\<rparr>"
    by (simp add: demo_coffee_fields)
  from redeem_success [OF demo_rewards(1) demo_coffee_fields(1) demo_coffee_unexpired
      demo_users(1) c v]
  show ?thesis
    by (simp add: demo_coffee_fields redeemed_of_def debit_of_def demo_env_def demo_no_history)
qed

lemma demo_redeemed_User:
  "User demo_redeemed 41 =
     Some \<lparr>rewardPoints_total = 20,
           user_rewards = [\<lparr>redeemed_name = ''Coffee'',
                             redeemed_shortDescription = ''Free coffee'',
                             redeemed_pointsCost = 30, redeemedAt = 1001\<rparr>]\<rparr>"
  by (simp add: demo_redeemed_def demo_first_redeem)

lemma demo_redeemed_Reward: "Reward demo_redeemed = Reward demo_db"
  by (simp add: demo_redeemed_def demo_first_redeem)

text \<open>
  C3. The claim has a reward count as unexpired when it has no \<^verbatim>\<open>validUntil\<close> or its
  \<^verbatim>\<open>validUntil\<close> lies in the future. The handler tests \<^verbatim>\<open>new Date() > reward.validUntil\<close>:
  a reward is expired when it has a \<^verbatim>\<open>validUntil\<close> and the clock reading is past it, so at
  the instant \<^verbatim>\<open>validUntil\<close> itself it is still redeemed. With that reading the claim holds:
  the preconditions are checked in the order reward exists, reward active, reward
  unexpired, user exists, balance covers the cost; the first one that fails decides the
  answer, the store is left as it was, and the answer to a short balance prints the cost
  and the balance.
\<close>

theorem redeem_precondition_order:
  "(Reward st rid = None \<longrightarrow>
      redeem e st uid rid = (st, failure 404 ''Reward not found'')) \<and>
   (\<forall>rw. Reward st rid = Some rw \<longrightarrow>
      (expired rw (now1 e) \<longleftrightarrow> (\<exists>v. validUntil rw = Some v \<and> v < now1 e)) \<and>
      (\<not> isActive rw \<longrightarrow>
         redeem e st uid rid = (st, failure 400 ''Reward is not available'')) \<and>
      (isActive rw \<and> expired rw (now1 e) \<longrightarrow>
         redeem e st uid rid = (st, failure 400 ''Reward has expired'')) \<and>
      (isActive rw \<and> \<not> expired rw (now1 e) \<and> User st uid = None \<longrightarrow>
         redeem e st uid rid = (st, failure 404 ''User not found'')) \<and>
      (\<forall>u. isActive rw \<and> \<not> expired rw (now1 e) \<and> User st uid = Some u \<and>
            rewardPoints_total u < reward_pointsCost rw \<longrightarrow>
         redeem e st uid rid =
           (st, failure 400 (''Insufficient points. You need ''
                               @ show_int (reward_pointsCost rw) @ '' points but have ''
                               @ show_int (rewardPoints_total u)))) \<and>
      (\<forall>u. isActive rw \<and> \<not> expired rw (now1 e) \<and> User st uid = Some u \<and>
            reward_pointsCost rw \<le> rewardPoints_total u \<longrightarrow>
         redeem_check e st uid rid = Inr (rw, u)))"
proof (intro conjI allI impI)
  assume "Reward st rid = None"
  then show "redeem e st uid rid = (st, failure 404 ''Reward not found'')"
    by (simp add: redeem_failure redeem_check_no_reward)
next
  fix rw
  show "expired rw (now1 e) \<longleftrightarrow> (\<exists>v. validUntil rw = Some v \<and> v < now1 e)"
    by (simp add: expired_def split: option.splits)
next
  fix rw assume "Reward st rid = Some rw" "\<not> isActive rw"
  then show "redeem e st uid rid = (st, failure 400 ''Reward is not available'')"
    by (simp add: redeem_failure redeem_check_inactive)
next
  fix rw assume "Reward st rid = Some rw" "isActive rw \<and> expired rw (now1 e)"
  then show "redeem e st uid rid = (st, failure 400 ''Reward has expired'')"
    by (simp add: redeem_failure redeem_check_expired)
next
  fix rw assume "Reward st rid = Some rw"
    "isActive rw \<and> \<not> expired rw (now1 e) \<and> User st uid = None"
  then show "redeem e st uid rid = (st, failure 404 ''User not found'')"
    by (simp add: redeem_failure redeem_check_no_user)
next
  fix rw u assume "Reward st rid = Some rw"
    "isActive rw \<and> \<not> expired rw (now1 e) \<and> User st uid = Some u \<and>
       rewardPoints_total u < reward_pointsCost rw"
  then have "redeem e st uid rid =
               (st, failure 400 (insufficient (reward_pointsCost rw) (rewardPoints_total u)))"
    by (simp add: redeem_failure redeem_check_insufficient)
  then show "redeem e st uid rid =
           (st, failure 400 (''Insufficient points. You need ''
                               @ show_int (reward_pointsCost rw) @ '' points but have ''
                               @ show_int (rewardPoints_total u)))"
    by (simp add: insufficient_def)
next
  fix rw u assume "Reward st rid = Some rw"
    "isActive rw \<and> \<not> expired rw (now1 e) \<and> User st uid = Some u \<and>
       reward_pointsCost rw \<le> rewardPoints_total u"
  then show "redeem_check e st uid rid = Inr (rw, u)"
    by (simp add: redeem_check_passes)
qed

theorem redeem_precondition_order_witness:
  "redeem demo_env demo_db 77 99 = (demo_db, failure 404 ''Reward not found'') \<and>
   redeem demo_env demo_db 77 64 = (demo_db, failure 400 ''Reward is not available'') \<and>
   redeem demo_env demo_db 77 63 = (demo_db, failure 400 ''Reward has expired'') \<and>
   redeem demo_env demo_db 77 61 = (demo_db, failure 404 ''User not found'') \<and>
   redeem demo_env demo_db 42 61 =
     (demo_db, failure 400 ''Insufficient points. You need 30 points but have 0'') \<and>
   redeem demo_later demo_redeemed 41 61 =
     (demo_redeemed, failure 400 ''Insufficient points. You need 30 points but have 20'')"
proof -
  have now: "now1 demo_env = 1000" by (simp add: demo_env_def)
  have r61: "Reward demo_redeemed 61 = Some demo_coffee"
    by (simp add: demo_redeemed_Reward demo_rewards)
  show ?thesis
    using redeem_precondition_order [of demo_db 99 demo_env 77]
      redeem_precondition_order [of demo_db 64 demo_env 77]
      redeem_precondition_order [of demo_db 63 demo_env 77]
      redeem_precondition_order [of demo_db 61 demo_env 77]
      redeem_precondition_order [of demo_db 61 demo_env 42]
      redeem_precondition_order [of demo_redeemed 61 demo_later 41]
    by (simp add: demo_rewards demo_users demo_no_user demo_coffee_fields
        demo_coffee_unexpired expired_def now r61 demo_redeemed_User
        show_int_def show_nat.simps)
qed

text \<open>
  A reward whose \<^verbatim>\<open>validUntil\<close> is the clock reading of the request, so not in the future,
  is redeemed.
\<close>

theorem redeem_at_validUntil_counterexample:
  "Reward demo_db 65 = Some (demo_coffee\<lparr>validUntil := Some 1000\<rparr>) \<and>
   validUntil (demo_coffee\<lparr>validUntil := Some 1000\<rparr>) = Some (now1 demo_env) \<and>
   redeem demo_env demo_db 41 65 =
     (demo_db\<lparr>User := (User demo_db)(41 \<mapsto>
                 \<lparr>rewardPoints_total = 20,
                  user_rewards = [\<lparr>redeemed_name = ''Coffee'',
                                    redeemed_shortDescription = ''Free coffee'',
                                    redeemed_pointsCost = 30, redeemedAt = 1001\<rparr>]\<rparr>),
              RewardHistory := [\<lparr>history_userId = 41, amount = - 30,
                                  reason = ''Redeemed reward: Coffee'',
                                  history_timestamp = 1002\<rparr>]\<rparr>,
      Response 200 True ''Reward redeemed successfully!''
        (Some (RewardData 65 ''Coffee'' ''Free coffee'' Voucher 30 20)))"
proof -
  let ?rw = "demo_coffee\<lparr>validUntil := Some 1000\<rparr>"
  have now: "now1 demo_env = 1000" by (simp add: demo_env_def)
  have a: "isActive ?rw" by (simp add: demo_coffee_fields)
  have x: "\<not> expired ?rw (now1 demo_env)" by (simp add: expired_def now)
  have c: "reward_pointsCost ?rw
             \<le> rewardPoints_total \<lparr>rewardPoints_total = 50, user_rewards = []\<rparr>"
    by (simp add: demo_coffee_fields)
  have v: "validateUser (\<lparr>rewardPoints_total = 50, user_rewards = []\<rparr>
             \<lparr>rewardPoints_total := rewardPoints_total \<lparr>rewardPoints_total = 50, user_rewards = []\<rparr>
                                      - reward_pointsCost ?rw,
              user_rewards := user_rewards \<lparr>rewardPoints_total = 50, user_rewards = []\<rparr>
                                @ [redeemed_of demo_env ?rw]\<rparr>)"
    by (simp add: validateUser_def redeemed_of_def demo_coffee_fields)
  from redeem_success [OF demo_rewards(5) a x demo_users(1) c v]
  show ?thesis
    by (simp add: demo_rewards demo_coffee_fields redeemed_of_def debit_of_def demo_env_def
        demo_no_history)
qed

lemma demo_checked_in_User:
  "User demo_checked_in 41 = Some \<lparr>rewardPoints_total = 60, user_rewards = []\<rparr>"
  by (simp add: demo_checked_in_def demo_first_checkin)

lemma demo_checked_in_Reward: "Reward demo_checked_in = Reward demo_db"
  by (simp add: demo_checked_in_def demo_first_checkin)

lemma demo_checked_in_RewardHistory:
  "RewardHistory demo_checked_in =
     [\<lparr>history_userId = 41, amount = 10, reason = ''Check-in at Cafe'',
       history_timestamp = 1002\<rparr>]"
  by (simp add: demo_checked_in_def demo_first_checkin)

lemma demo_second_redeem:
  "redeem demo_env demo_checked_in 41 61 =
     (demo_checked_in\<lparr>User := (User demo_checked_in)(41 \<mapsto>
                 \<lparr>rewardPoints_total = 30,
                  user_rewards = [redeemed_of demo_env demo_coffee]\<rparr>),
              RewardHistory := RewardHistory demo_checked_in @ [debit_of demo_env 41 demo_coffee]\<rparr>,
      Response 200 True ''Reward redeemed successfully!''
        (Some (RewardData 61 ''Coffee'' ''Free coffee'' Voucher 30 30)))"
proof -
  have r: "Reward demo_checked_in 61 = Some demo_coffee"
    by (simp add: demo_checked_in_Reward demo_rewards)
  have v: "validateUser (\<lparr>rewardPoints_total = 60, user_rewards = []\<rparr>
             \<lparr>rewardPoints_total := rewardPoints_total \<lparr>rewardPoints_total = 60, user_rewards = []\<rparr>
                                      - reward_pointsCost demo_coffee,
              user_rewards := user_rewards \<lparr>rewardPoints_total = 60, user_rewards = []\<rparr>
                                @ [redeemed_of demo_env demo_coffee]\<rparr>)"
    by (simp add: validateUser_def redeemed_of_def demo_coffee_fields)
  have c: "reward_pointsCost demo_coffee \<le> rewardPoints_total \<lparr>rewardPoints_total = 60, user_rewards = []\<rparr>"
    by (simp add: demo_coffee_fields)
  from redeem_success [OF r demo_coffee_fields(1) demo_coffee_unexpired
      demo_checked_in_User c v]
  show ?thesis by (simp add: demo_coffee_fields)
qed

text \<open>
  C9. The claim has the repeat of an accepted redemption accepted whenever the balance
  left still covers the cost. The repeat is a new request with clock readings of its own,
  and the reward may have expired between the two. With the reward still unexpired at the
  repeat, the claim holds: when a redemption was accepted and the balance it left still
  covers the cost, the same request again is accepted again, debits the cost a second
  time, pushes a second snapshot and logs a second negative ledger entry.
\<close>

theorem redeem_not_idempotent:
  assumes first: "redeem e st uid rid = (st1, r1)" "status r1 = 200"
    and rw: "Reward st rid = Some rw" and u1: "User st1 uid = Some u1"
    and enough: "reward_pointsCost rw \<le> rewardPoints_total u1"
    and unexpired: "\<not> expired rw (now1 e')"
  shows "redeem e' st1 uid rid =
           (st1\<lparr>User := (User st1)(uid \<mapsto>
                     u1\<lparr>rewardPoints_total := rewardPoints_total u1 - reward_pointsCost rw,
                        user_rewards := user_rewards u1 @ [redeemed_of e' rw]\<rparr>),
                RewardHistory := RewardHistory st1 @ [debit_of e' uid rw]\<rparr>,
            Response 200 True ''Reward redeemed successfully!''
              (Some (RewardData rid (reward_name rw) (reward_shortDescription rw)
                       (reward_kind rw) (reward_pointsCost rw)
                       (rewardPoints_total u1 - reward_pointsCost rw))))"
proof -
  from first obtain rw0 u where f: "Reward st rid = Some rw0" "isActive rw0"
    "User st uid = Some u"
    "validateUser (u\<lparr>rewardPoints_total := rewardPoints_total u - reward_pointsCost rw0,
                       user_rewards := user_rewards u @ [redeemed_of e rw0]\<rparr>)"
    "st1 = st\<lparr>User := (User st)(uid \<mapsto>
                    u\<lparr>rewardPoints_total := rewardPoints_total u - reward_pointsCost rw0,
                      user_rewards := user_rewards u @ [redeemed_of e rw0]\<rparr>),
               RewardHistory := RewardHistory st @ [debit_of e uid rw0]\<rparr>"
    by (rule redeem_accepted)
  have same: "rw0 = rw" using f(1) rw by simp
  have u1_eq: "u1 = u\<lparr>rewardPoints_total := rewardPoints_total u - reward_pointsCost rw,
                       user_rewards := user_rewards u @ [redeemed_of e rw]\<rparr>"
    using u1 f(5) same by simp
  have r1: "Reward st1 rid = Some rw" using f(5) rw by simp
  have v1: "validateUser u1" using f(4) same u1_eq by simp
  then have "0 \<le> reward_pointsCost rw"
    by (simp add: u1_eq validateUser_def redeemed_of_def)
  then have v: "validateUser (u1\<lparr>rewardPoints_total := rewardPoints_total u1 - reward_pointsCost rw,
                   user_rewards := user_rewards u1 @ [redeemed_of e' rw]\<rparr>)"
    using v1 enough by (intro validateUser_debit)
  show ?thesis
    using f(2) same by (intro redeem_success [OF r1 _ unexpired u1 enough v]) simp
qed

theorem redeem_not_idempotent_witness:
  "redeem demo_env demo_checked_in 41 61 =
     (demo_checked_in_redeemed,
      Response 200 True ''Reward redeemed successfully!''
        (Some (RewardData 61 ''Coffee'' ''Free coffee'' Voucher 30 30))) \<and>
   redeem demo_later demo_checked_in_redeemed 41 61 =
     (demo_checked_in_redeemed
        \<lparr>User := (User demo_checked_in_redeemed)(41 \<mapsto>
                   \<lparr>rewardPoints_total = 0,
                    user_rewards = [redeemed_of demo_env demo_coffee,
                                    redeemed_of demo_later demo_coffee]\<rparr>),
         RewardHistory :=
           [\<lparr>history_userId = 41, amount = 10, reason = ''Check-in at Cafe'',
             history_timestamp = 1002\<rparr>,
            debit_of demo_env 41 demo_coffee, debit_of demo_later 41 demo_coffee]\<rparr>,
      Response 200 True ''Reward redeemed successfully!''
        (Some (RewardData 61 ''Coffee'' ''Free coffee'' Voucher 30 0))) \<and>
   amount (debit_of demo_later 41 demo_coffee) = - 30"
proof -
  have st1: "demo_checked_in_redeemed =
      demo_checked_in\<lparr>User := (User demo_checked_in)(41 \<mapsto>
                 \<lparr>rewardPoints_total = 30,
                  user_rewards = [redeemed_of demo_env demo_coffee]\<rparr>),
              RewardHistory := RewardHistory demo_checked_in @ [debit_of demo_env 41 demo_coffee]\<rparr>"
    by (simp add: demo_checked_in_redeemed_def demo_second_redeem)
  have first: "redeem demo_env demo_checked_in 41 61 =
     (demo_checked_in_redeemed,
      Response 200 True ''Reward redeemed successfully!''
        (Some (RewardData 61 ''Coffee'' ''Free coffee'' Voucher 30 30)))"
    by (simp add: st1 demo_second_redeem)
  have ok: "status (Response 200 True ''Reward redeemed successfully!''
        (Some (RewardData 61 ''Coffee'' ''Free coffee'' Voucher 30 30))) = 200"
    by simp
  have r: "Reward demo_checked_in 61 = Some demo_coffee"
    by (simp add: demo_checked_in_Reward demo_rewards)
  have u1: "User demo_checked_in_redeemed 41 =
      Some \<lparr>rewardPoints_total = 30, user_rewards = [redeemed_of demo_env demo_coffee]\<rparr>"
    by (simp add: st1)
  have c: "reward_pointsCost demo_coffee \<le> rewardPoints_total
      \<lparr>rewardPoints_total = 30, user_rewards = [redeemed_of demo_env demo_coffee]\<rparr>"
    by (simp add: demo_coffee_fields)
  have h: "RewardHistory demo_checked_in_redeemed =
      [\<lparr>history_userId = 41, amount = 10, reason = ''Check-in at Cafe'',
             history_timestamp = 1002\<rparr>, debit_of demo_env 41 demo_coffee]"
    by (simp add: st1 demo_checked_in_RewardHistory)
  from redeem_not_idempotent [OF first ok r u1 c demo_coffee_unexpired]
  show ?thesis
    by (simp add: first h demo_coffee_fields debit_of_def)
qed

text \<open>
  User 41 holds 60 points and redeems a 30-point reward whose \<^verbatim>\<open>validUntil\<close> is 1000 at
  clock reading 1000: accepted, 30 points left. The identical request at clock reading 5000
  is answered 400, with nothing debited.
\<close>

theorem redeem_repeat_expired_counterexample:
  "redeem demo_env demo_checked_in 41 65 =
     (demo_checked_in\<lparr>User := (User demo_checked_in)(41 \<mapsto>
                 \<lparr>rewardPoints_total = 30,
                  user_rewards = [\<lparr>redeemed_name = ''Coffee'',
                                    redeemed_shortDescription = ''Free coffee'',
                                    redeemed_pointsCost = 30, redeemedAt = 1001\<rparr>]\<rparr>),
              RewardHistory :=
                [\<lparr>history_userId = 41, amount = 10, reason = ''Check-in at Cafe'',
                  history_timestamp = 1002\<rparr>,
                 \<lparr>history_userId = 41, amount = - 30, reason = ''Redeemed reward: Coffee'',
                  history_timestamp = 1002\<rparr>]\<rparr>,
      Response 200 True ''Reward redeemed successfully!''
        (Some (RewardData 65 ''Coffee'' ''Free coffee'' Voucher 30 30))) \<and>
   redeem demo_later (fst (redeem demo_env demo_checked_in 41 65)) 41 65 =
     (fst (redeem demo_env demo_checked_in 41 65), failure 400 ''Reward has expired'')"
proof -
  let ?rw = "demo_coffee\<lparr>validUntil := Some 1000\<rparr>"
  have now: "now1 demo_env = 1000" "now1 demo_later = 5000"
    by (simp_all add: demo_env_def demo_later_def)
  have r: "Reward demo_checked_in 65 = Some ?rw"
    by (simp add: demo_checked_in_Reward demo_rewards)
  have a: "isActive ?rw" by (simp add: demo_coffee_fields)
  have x: "\<not> expired ?rw (now1 demo_env)" by (simp add: expired_def now)
  have c: "reward_pointsCost ?rw
             \<le> rewardPoints_total \<lparr>rewardPoints_total = 60, user_rewards = []\<rparr>"
    by (simp add: demo_coffee_fields)
  have v: "validateUser (\<lparr>rewardPoints_total = 60, user_rewards = []\<rparr>
             \<lparr>rewardPoints_total := rewardPoints_total \<lparr>rewardPoints_total = 60, user_rewards = []\<rparr>
                                      - reward_pointsCost ?rw,
              user_rewards := user_rewards \<lparr>rewardPoints_total = 60, user_rewards = []\<rparr>
                                @ [redeemed_of demo_env ?rw]\<rparr>)"
    by (simp add: validateUser_def redeemed_of_def demo_coffee_fields)
  have first: "redeem demo_env demo_checked_in 41 65 =
     (demo_checked_in\<lparr>User := (User demo_checked_in)(41 \<mapsto>
                 \<lparr>rewardPoints_total = 30,
                  user_rewards = [\<lparr>redeemed_name = ''Coffee'',
                                    redeemed_shortDescription = ''Free coffee'',
                                    redeemed_pointsCost = 30, redeemedAt = 1001\<rparr>]\<rparr>),
              RewardHistory :=
                [\<lparr>history_userId = 41, amount = 10, reason = ''Check-in at Cafe'',
                  history_timestamp = 1002\<rparr>,
                 \<lparr>history_userId = 41, amount = - 30, reason = ''Redeemed reward: Coffee'',
                  history_timestamp = 1002\<rparr>]\<rparr>,
      Response 200 True ''Reward redeemed successfully!''
        (Some (RewardData 65 ''Coffee'' ''Free coffee'' Voucher 30 30)))"
    using redeem_success [OF r a x demo_checked_in_User c v]
    by (simp add: demo_coffee_fields redeemed_of_def debit_of_def demo_env_def
        demo_checked_in_RewardHistory)
  have second: "redeem demo_later (fst (redeem demo_env demo_checked_in 41 65)) 41 65 =
     (fst (redeem demo_env demo_checked_in 41 65), failure 400 ''Reward has expired'')"
    by (rule redeem_failure, rule redeem_check_expired [where rw = ?rw])
      (simp_all add: first r demo_coffee_fields expired_def now)
  show ?thesis using first second by simp
qed
section \<open>Place redemption engine: facts\<close>

lemma redeem_place_no_place:
  "Place st pid = None \<Longrightarrow> redeem_place e st uid pid = (st, failure 404 ''Place not found'')"
  by (simp add: redeem_place_def)

lemma redeem_place_not_eligible:
  "Place st pid = Some p \<Longrightarrow> \<not> eligible_place p \<Longrightarrow>
     redeem_place e st uid pid = (st, failure 400 ''Place not eligible for redemption'')"
  by (cases "place_redemption p") (simp_all add: redeem_place_def eligible_place_def)

lemma redeem_place_no_user:
  "Place st pid = Some p \<Longrightarrow> eligible_place p \<Longrightarrow> User st uid = None \<Longrightarrow>
     redeem_place e st uid pid = (st, failure 404 ''User not found'')"
  by (cases "place_redemption p") (simp_all add: redeem_place_def eligible_place_def)

lemma redeem_place_credit:
  assumes "Place st pid = Some p" "eligible_place p" "User st uid = Some u"
    and "validateUser (u\<lparr>rewardPoints_total := rewardPoints_total u + place_award p\<rparr>)"
  shows "redeem_place e st uid pid =
           (st\<lparr>User := (User st)(uid \<mapsto>
                    u\<lparr>rewardPoints_total := rewardPoints_total u + place_award p\<rparr>),
               RewardHistory := RewardHistory st @ [place_credit_of e uid p (place_award p)]\<rparr>,
            Response 200 True ''Redemption successful! Points awarded.''
              (Some (PlaceRedeemData (place_award p) (rewardPoints_total u + place_award p))))"
  using assms
  by (cases "place_redemption p")
     (simp_all add: redeem_place_def eligible_place_def place_award_def place_credit_of_def
        save_user_def create_history_def Let_def)

lemma redeem_place_rejected_save:
  assumes "Place st pid = Some p" "eligible_place p" "User st uid = Some u"
    and "\<not> validateUser (u\<lparr>rewardPoints_total := rewardPoints_total u + place_award p\<rparr>)"
  shows "redeem_place e st uid pid = (st, serverError)"
  using assms
  by (cases "place_redemption p")
     (simp_all add: redeem_place_def eligible_place_def place_award_def save_user_def Let_def)




lemma demo_user_valid: "validateUser \<lparr>rewardPoints_total = 50, user_rewards = []\<rparr>"
  by (simp add: validateUser_def)



text \<open>
  C10. A place redemption at an eligible place whose \<^verbatim>\<open>redemption.pointsCost\<close> is absent or
  0 still succeeds for an existing user with a schema-valid document: the user documents
  are left as they were, one ledger entry of amount 0 naming the place is appended, and
  the answer reports 0 points awarded and the unchanged total.
\<close>

theorem place_redemption_zero_cost:
  assumes place: "Place st pid = Some p"
    and red: "place_redemption p = Some r" and elig: "eligible r = Some True"
    and zero: "redemption_pointsCost r = None \<or> redemption_pointsCost r = Some 0"
    and usr: "User st uid = Some u" and valid: "validateUser u"
  shows "redeem_place e st uid pid =
           (st\<lparr>RewardHistory := RewardHistory st @
                    [\<lparr>history_userId = uid, amount = 0,
                      reason = ''Redeemed at '' @ place_name p,
                      history_timestamp = now1 e\<rparr>]\<rparr>,
            Response 200 True ''Redemption successful! Points awarded.''
              (Some (PlaceRedeemData 0 (rewardPoints_total u))))"
proof -
  have e: "eligible_place p" using red elig by (simp add: eligible_place_def)
  have a: "place_award p = 0" using red zero by (auto simp: place_award_def)
  have v: "validateUser (u\<lparr>rewardPoints_total := rewardPoints_total u + place_award p\<rparr>)"
    using valid a by simp
  have same: "(User st)(uid \<mapsto> u) = User st" using usr by (simp add: fun_upd_idem)
  show ?thesis
    using redeem_place_credit [OF place e usr v, of e]
    by (simp add: a same place_credit_of_def)
qed

theorem place_redemption_zero_cost_witness:
  "redeem_place demo_later demo_db 41 52 =
     (demo_db\<lparr>RewardHistory := [\<lparr>history_userId = 41, amount = 0,
                                  reason = ''Redeemed at Park'', history_timestamp = 5000\<rparr>]\<rparr>,
      Response 200 True ''Redemption successful! Points awarded.''
        (Some (PlaceRedeemData 0 50)))"
proof -
  have red: "place_redemption demo_park =
      Some \<lparr>eligible = Some True, redemption_pointsCost = None\<rparr>"
    by (simp add: demo_park_def)
  have elig: "eligible \<lparr>eligible = Some True, redemption_pointsCost = None\<rparr> = Some True"
    by simp
  have zero: "redemption_pointsCost \<lparr>eligible = Some True, redemption_pointsCost = None\<rparr> = None
      \<or> redemption_pointsCost \<lparr>eligible = Some True, redemption_pointsCost = None\<rparr> = Some 0"
    by simp
  from place_redemption_zero_cost [OF demo_places(2) red elig zero demo_users(1) demo_user_valid,
      of demo_later]
  show ?thesis by (simp add: demo_no_history demo_names demo_later_def)
qed

section \<open>What one request does to balances and ledger\<close>

lemma paired_update_refl: "paired_update st st"
  by (simp add: paired_update_def)

lemma paired_updateI:
  assumes "User st uid = Some u" "User st' = (User st)(uid \<mapsto> u')"
    and "RewardHistory st' = RewardHistory st @ [h]" "history_userId h = uid"
    and "validateUser u'" "rewardPoints_total u' = rewardPoints_total u + amount h"
  shows "paired_update st st'"
  unfolding paired_update_def using assms by blast

lemma paired_update_checkin: "paired_update st (fst (checkin e st uid pid c))"
proof (cases "Place st pid")
  case None
  then show ?thesis by (simp add: checkin_no_place paired_update_refl)
next
  case place: (Some p)
  show ?thesis
  proof (cases "js_greater (dist_to (runtime e) p c) (Num 20)")
    case True
    then show ?thesis by (simp add: checkin_too_far [OF place] paired_update_refl)
  next
    case far: False
    show ?thesis
    proof (cases "js_less (dist_to (runtime e) p c) (Num 10)")
      case True
      then show ?thesis by (simp add: checkin_too_close [OF place far] paired_update_refl)
    next
      case near: False
      show ?thesis
      proof (cases "find (checkedInToday e uid pid) (Checkin st)")
        case (Some k)
        then show ?thesis
          by (simp add: checkin_again [OF place far near] paired_update_refl)
      next
        case none: None
        show ?thesis
        proof (cases "User st uid")
          case None
          then show ?thesis
            by (simp add: checkin_load_no_user [OF place far near none] paired_update_def)
        next
          case usr: (Some u)
          let ?u = "u\<lparr>rewardPoints_total := rewardPoints_total u + 10\<rparr>"
          show ?thesis
          proof (cases "validateUser ?u")
            case True
            then show ?thesis
              by (intro paired_updateI [OF usr, where u' = ?u
                    and h = "checkin_credit_of e uid p"])
                 (simp_all add: checkin_in_band [OF place usr True none far near]
                    checkin_credit_of_def)
          next
            case False
            then show ?thesis
              by (simp add: checkin_def checkin_load_passes [OF place far near none usr]
                  checkin_commit_rejected paired_update_def)
          qed
        qed
      qed
    qed
  qed
qed

lemma paired_update_checkin_route: "paired_update st (fst (checkin_route e st uid pid c))"
  by (cases "validateCoordinates (snd c) (fst c)")
    (simp_all add: checkin_route_valid checkin_route_invalid paired_update_checkin
      paired_update_refl)

lemma paired_update_redeem: "paired_update st (fst (redeem e st uid rid))"
proof (cases "redeem_check e st uid rid")
  case (Inl r)
  then show ?thesis by (simp add: redeem_failure paired_update_refl)
next
  case (Inr pair)
  obtain rw u where pair: "pair = (rw, u)" by (cases pair)
  note chk = redeem_check_Inr [OF Inr [unfolded pair]]
  let ?u = "u\<lparr>rewardPoints_total := rewardPoints_total u - reward_pointsCost rw,
                user_rewards := user_rewards u @ [redeemed_of e rw]\<rparr>"
  have eq: "redeem e st uid rid = redeem_commit e st uid rid rw u"
    using Inr pair by (simp add: redeem_def)
  show ?thesis
  proof (cases "validateUser ?u")
    case True
    have u: "User st uid = Some u" using chk by simp
    from True show ?thesis
      by (intro paired_updateI [OF u, where u' = ?u and h = "debit_of e uid rw"])
         (simp_all add: eq redeem_commit_stored [OF u True] debit_of_def)
  next
    case False
    then show ?thesis by (simp add: eq redeem_commit_rejected paired_update_refl)
  qed
qed

lemma paired_update_redeem_place: "paired_update st (fst (redeem_place e st uid pid))"
proof (cases "Place st pid")
  case None
  then show ?thesis by (simp add: redeem_place_no_place paired_update_refl)
next
  case (Some p)
  show ?thesis
  proof (cases "eligible_place p")
    case False
    then show ?thesis by (simp add: redeem_place_not_eligible [OF Some] paired_update_refl)
  next
    case True
    show ?thesis
    proof (cases "User st uid")
      case None
      then show ?thesis by (simp add: redeem_place_no_user [OF Some True] paired_update_refl)
    next
      case u: (Some u)
      let ?u = "u\<lparr>rewardPoints_total := rewardPoints_total u + place_award p\<rparr>"
      show ?thesis
      proof (cases "validateUser ?u")
        case v: True
        from v show ?thesis
          by (intro paired_updateI [OF u, where u' = ?u
                and h = "place_credit_of e uid p (place_award p)"])
             (simp_all add: redeem_place_credit [OF Some True u v] place_credit_of_def)
      next
        case False
        then show ?thesis
          by (simp add: redeem_place_rejected_save [OF Some True u] paired_update_refl)
      qed
    qed
  qed
qed

lemma paired_update_handle: "paired_update st (fst (handle e st rq))"
  by (cases rq)
    (simp_all add: paired_update_checkin_route paired_update_redeem paired_update_redeem_place)

lemma paired_update_points_ok:
  assumes "paired_update st st'" "points_ok st v"
  shows "points_ok st' v"
  using assms
  by (auto simp: paired_update_def points_ok_def validateUser_def split: option.splits if_splits)

text \<open>Stored user documents stay valid under the User schema.\<close>

lemma paired_update_valid:
  assumes "paired_update st st'" "\<forall>u. User st v = Some u \<longrightarrow> validateUser u"
  shows "\<forall>u. User st' v = Some u \<longrightarrow> validateUser u"
  using assms by (auto simp: paired_update_def split: if_splits)



lemma run_Cons_fst:
  "fst (run st (x # xs)) = fst (run (fst (handle (fst x) st (snd x))) xs)"
  by (simp add: split_beta)

lemma run_points_ok: "points_ok st v \<Longrightarrow> points_ok (fst (run st reqs)) v"
proof (induction reqs arbitrary: st)
  case Nil
  then show ?case by simp
next
  case (Cons x xs)
  have "points_ok (fst (handle (fst x) st (snd x))) v"
    using paired_update_handle Cons.prems by (rule paired_update_points_ok)
  then show ?case unfolding run_Cons_fst by (rule Cons.IH)
qed

lemma run_valid:
  "\<forall>u. User st v = Some u \<longrightarrow> validateUser u \<Longrightarrow>
     \<forall>u. User (fst (run st reqs)) v = Some u \<longrightarrow> validateUser u"
proof (induction reqs arbitrary: st)
  case Nil
  then show ?case by simp
next
  case (Cons x xs)
  have "\<forall>u. User (fst (handle (fst x) st (snd x))) v = Some u \<longrightarrow> validateUser u"
    using paired_update_handle Cons.prems by (rule paired_update_valid)
  then show ?case unfolding run_Cons_fst by (rule Cons.IH)
qed



text \<open>
  C5. A user's points total never becomes negative: every request (check-in credit,
  place-redemption credit, reward-redemption debit) and every run of requests preserves
  \<open>0 \<le> points.total\<close> for every user, and a reward redemption by a user whose balance is
  below the reward's cost is answered 400 and leaves the store, hence the balance, as it
  was.
\<close>

theorem points_never_negative:
  "(points_ok st v \<longrightarrow>
      points_ok (fst (handle e st rq)) v \<and> points_ok (fst (run st reqs)) v) \<and>
   (\<forall>rw u. Reward st rid = Some rw \<and> User st uid = Some u \<and>
           rewardPoints_total u < reward_pointsCost rw \<longrightarrow>
      fst (redeem e st uid rid) = st \<and> status (snd (redeem e st uid rid)) = 400 \<and>
      \<not> success (snd (redeem e st uid rid)))"
proof (intro conjI allI impI)
  assume "points_ok st v"
  then show "points_ok (fst (handle e st rq)) v"
    using paired_update_handle by (rule paired_update_points_ok [rotated])
next
  assume "points_ok st v"
  then show "points_ok (fst (run st reqs)) v" by (rule run_points_ok)
next
  fix rw u
  assume h: "Reward st rid = Some rw \<and> User st uid = Some u \<and>
           rewardPoints_total u < reward_pointsCost rw"
  then have "\<exists>m. redeem_check e st uid rid = Inl (failure 400 m)"
    by (auto simp: redeem_check_def)
  then obtain m where "redeem e st uid rid = (st, failure 400 m)"
    by (auto simp: redeem_failure)
  then show "fst (redeem e st uid rid) = st" "status (snd (redeem e st uid rid)) = 400"
    "\<not> success (snd (redeem e st uid rid))"
    by (simp_all add: failure_def)
qed

theorem points_never_negative_witness:
  "points_ok demo_db 41 \<and>
   points_ok (fst (handle demo_env demo_db (RedeemReq 41 61))) 41 \<and>
   points_ok (fst (run demo_db demo_requests)) 41 \<and>
   User demo_redeemed 41 =
     Some \<lparr>rewardPoints_total = 20,
           user_rewards = [\<lparr>redeemed_name = ''Coffee'',
                             redeemed_shortDescription = ''Free coffee'',
                             redeemed_pointsCost = 30, redeemedAt = 1001\<rparr>]\<rparr> \<and>
   fst (redeem demo_later demo_redeemed 41 61) = demo_redeemed \<and>
   status (snd (redeem demo_later demo_redeemed 41 61)) = 400"
proof -
  have ok: "points_ok demo_db 41" by (simp add: points_ok_def demo_users)
  have r61: "Reward demo_redeemed 61 = Some demo_coffee"
    by (simp add: demo_redeemed_Reward demo_rewards)
  show ?thesis
    using points_never_negative [of demo_db 41 demo_env "RedeemReq 41 61" demo_requests 61 41]
      points_never_negative [of demo_redeemed 41 demo_later "RedeemReq 41 61" "[]" 61 41]
    by (simp add: ok r61 demo_redeemed_User demo_coffee_fields)
qed








section \<open>Accepted check-ins\<close>







section \<open>Redemptions in flight\<close>

text \<open>A request that advances twice without another one in between is the handler itself.\<close>

lemma advance_twice:
  "advance (fst (advance st (Pending e uid rid))) (snd (advance st (Pending e uid rid))) =
     (fst (redeem e st uid rid), Done (snd (redeem e st uid rid)))"
proof (cases "redeem_check e st uid rid")
  case (Inl r)
  then show ?thesis by (simp add: redeem_def)
next
  case (Inr pair)
  then show ?thesis by (cases pair) (simp add: redeem_def split_beta)
qed

lemma schedule_serial:
  "schedule st [Pending eA uidA ridA, Pending eB uidB ridB] [0, 0, 1, 1] =
     (fst (redeem eB (fst (redeem eA st uidA ridA)) uidB ridB),
      [Done (snd (redeem eA st uidA ridA)),
       Done (snd (redeem eB (fst (redeem eA st uidA ridA)) uidB ridB))])"
proof -
  obtain s1 t1 where a1: "advance st (Pending eA uidA ridA) = (s1, t1)"
    by (cases "advance st (Pending eA uidA ridA)")
  have a2: "advance s1 t1 = (fst (redeem eA st uidA ridA), Done (snd (redeem eA st uidA ridA)))"
    using advance_twice [of st eA uidA ridA] unfolding a1 fst_conv snd_conv .
  let ?s2 = "fst (redeem eA st uidA ridA)"
  obtain s3 t3 where b1: "advance ?s2 (Pending eB uidB ridB) = (s3, t3)"
    by (cases "advance ?s2 (Pending eB uidB ridB)")
  have b2: "advance s3 t3 = (fst (redeem eB ?s2 uidB ridB), Done (snd (redeem eB ?s2 uidB ridB)))"
    using advance_twice [of ?s2 eB uidB ridB] unfolding b1 fst_conv snd_conv .
  show ?thesis by (simp add: a1 a2 b1 b2 del: advance.simps)
qed

lemma demo_interleaved:
  "schedule demo_db [Pending demo_env 41 61, Pending demo_later 41 61] [0, 1, 0, 1] =
     (demo_db\<lparr>User := (User demo_db)(41 \<mapsto>
                 \<lparr>rewardPoints_total = 20,
                  user_rewards = [redeemed_of demo_env demo_coffee,
                                  redeemed_of demo_later demo_coffee]\<rparr>),
              RewardHistory := [debit_of demo_env 41 demo_coffee,
                                debit_of demo_later 41 demo_coffee]\<rparr>,
      [Done (Response 200 True ''Reward redeemed successfully!''
               (Some (RewardData 61 ''Coffee'' ''Free coffee'' Voucher 30 20))),
       Done (Response 200 True ''Reward redeemed successfully!''
               (Some (RewardData 61 ''Coffee'' ''Free coffee'' Voucher 30 20)))])"
proof -
  let ?u = "\<lparr>rewardPoints_total = 50, user_rewards = []\<rparr>"
  have c: "reward_pointsCost demo_coffee \<le> rewardPoints_total ?u"
    by (simp add: demo_coffee_fields)
  have load: "redeem_check e demo_db 41 61 = Inr (demo_coffee, ?u)" for e
    by (rule redeem_check_passes [OF demo_rewards(1) demo_coffee_fields(1)
          demo_coffee_unexpired demo_users(1) c])
  let ?st1 = "demo_db\<lparr>User := (User demo_db)(41 \<mapsto>
                 \<lparr>rewardPoints_total = 20,
                  user_rewards = [redeemed_of demo_env demo_coffee]\<rparr>),
              RewardHistory := [debit_of demo_env 41 demo_coffee]\<rparr>"
  have first: "redeem_commit demo_env demo_db 41 61 demo_coffee ?u =
      (?st1, Response 200 True ''Reward redeemed successfully!''
               (Some (RewardData 61 ''Coffee'' ''Free coffee'' Voucher 30 20)))"
    by (simp add: redeem_commit_def Let_def save_user_def validateUser_def create_history_def
        demo_users demo_coffee_fields demo_no_history redeemed_of_def debit_of_def)
  have second: "redeem_commit demo_later ?st1 41 61 demo_coffee ?u =
      (demo_db\<lparr>User := (User demo_db)(41 \<mapsto>
                 \<lparr>rewardPoints_total = 20,
                  user_rewards = [redeemed_of demo_env demo_coffee,
                                  redeemed_of demo_later demo_coffee]\<rparr>),
              RewardHistory := [debit_of demo_env 41 demo_coffee,
                                debit_of demo_later 41 demo_coffee]\<rparr>,
       Response 200 True ''Reward redeemed successfully!''
               (Some (RewardData 61 ''Coffee'' ''Free coffee'' Voucher 30 20)))"
    by (simp add: redeem_commit_def Let_def save_user_def validateUser_def create_history_def
        demo_coffee_fields redeemed_of_def debit_of_def)
  show ?thesis
    by (simp add: load first second)
qed

lemma schedule_serial_rev:
  "schedule st [Pending eA uidA ridA, Pending eB uidB ridB] [1, 1, 0, 0] =
     (fst (redeem eA (fst (redeem eB st uidB ridB)) uidA ridA),
      [Done (snd (redeem eA (fst (redeem eB st uidB ridB)) uidA ridA)),
       Done (snd (redeem eB st uidB ridB))])"
proof -
  obtain s1 t1 where b1: "advance st (Pending eB uidB ridB) = (s1, t1)"
    by (cases "advance st (Pending eB uidB ridB)")
  have b2: "advance s1 t1 = (fst (redeem eB st uidB ridB), Done (snd (redeem eB st uidB ridB)))"
    using advance_twice [of st eB uidB ridB] unfolding b1 fst_conv snd_conv .
  let ?s2 = "fst (redeem eB st uidB ridB)"
  obtain s3 t3 where a1: "advance ?s2 (Pending eA uidA ridA) = (s3, t3)"
    by (cases "advance ?s2 (Pending eA uidA ridA)")
  have a2: "advance s3 t3 = (fst (redeem eA ?s2 uidA ridA), Done (snd (redeem eA ?s2 uidA ridA)))"
    using advance_twice [of ?s2 eA uidA ridA] unfolding a1 fst_conv snd_conv .
  show ?thesis by (simp add: a1 a2 b1 b2 del: advance.simps)
qed

text \<open>Two redemptions of one user served one after the other spend at most the balance.\<close>

lemma redeem_twice_within_balance:
  assumes one: "redeem e1 st uid rid1 = (st1, r1)" "status r1 = 200"
    and two: "redeem e2 st1 uid rid2 = (st2, r2)" "status r2 = 200"
    and u: "User st uid = Some u"
    and rw: "Reward st rid1 = Some rw1" "Reward st rid2 = Some rw2"
  shows "reward_pointsCost rw1 + reward_pointsCost rw2 \<le> rewardPoints_total u"
proof -
  from one obtain a ua where a: "Reward st rid1 = Some a" "User st uid = Some ua"
    "st1 = st\<lparr>User := (User st)(uid \<mapsto>
                    ua\<lparr>rewardPoints_total := rewardPoints_total ua - reward_pointsCost a,
                       user_rewards := user_rewards ua @ [redeemed_of e1 a]\<rparr>),
               RewardHistory := RewardHistory st @ [debit_of e1 uid a]\<rparr>"
    by (rule redeem_accepted)
  from two obtain b ub where b: "Reward st1 rid2 = Some b" "User st1 uid = Some ub"
    "reward_pointsCost b \<le> rewardPoints_total ub"
    by (rule redeem_accepted)
  have "a = rw1" "ua = u" using a u rw by simp_all
  moreover have "b = rw2" using b(1) a(3) rw by simp
  moreover have "rewardPoints_total ub = rewardPoints_total ua - reward_pointsCost a"
    using b(2) a(3) by auto
  ultimately show ?thesis using b(3) by simp
qed

lemma demo_second_redeem_fails:
  "redeem demo_later demo_redeemed 41 61 =
     (demo_redeemed, failure 400 ''Insufficient points. You need 30 points but have 20'')"
proof -
  have r: "Reward demo_redeemed 61 = Some demo_coffee"
    by (simp add: demo_redeemed_Reward demo_rewards)
  have low: "rewardPoints_total \<lparr>rewardPoints_total = 20,
           user_rewards = [\<lparr>redeemed_name = ''Coffee'',
                             redeemed_shortDescription = ''Free coffee'',
                             redeemed_pointsCost = 30, redeemedAt = 1001\<rparr>]\<rparr>
      < reward_pointsCost demo_coffee"
    by (simp add: demo_coffee_fields)
  show ?thesis
    using redeem_check_insufficient [OF r demo_coffee_fields(1) demo_coffee_unexpired
        demo_redeemed_User low, of demo_later]
    by (simp add: redeem_failure insufficient_def demo_coffee_fields show_int_def show_nat.simps)
qed

text \<open>
  C8. The claim asks that two concurrent redemptions of one user whose combined cost
  exceeds the balance cannot both succeed. The handler reads the user, checks the balance
  and saves the deducted total in separate steps, with no lock and no conditional
  decrement, so the guarantee holds only for requests served one after the other: then
  the two cannot both be answered 200.
\<close>

theorem serial_redemptions_no_double_spend:
  assumes order: "order = [0, 0, 1, 1] \<or> order = [1, 1, 0, 0]"
    and run: "schedule st [Pending eA uid ridA, Pending eB uid ridB] order =
                (st', [Done rA, Done rB])"
    and u: "User st uid = Some u"
    and rw: "Reward st ridA = Some rwA" "Reward st ridB = Some rwB"
    and over: "rewardPoints_total u < reward_pointsCost rwA + reward_pointsCost rwB"
  shows "\<not> (status rA = 200 \<and> status rB = 200)"
proof
  assume both: "status rA = 200 \<and> status rB = 200"
  from order show False
  proof
    assume o: "order = [0, 0, 1, 1]"
    have "rA = snd (redeem eA st uid ridA)"
      "rB = snd (redeem eB (fst (redeem eA st uid ridA)) uid ridB)"
      using run unfolding o schedule_serial by simp_all
    then have "reward_pointsCost rwA + reward_pointsCost rwB \<le> rewardPoints_total u"
      using both by (intro redeem_twice_within_balance [OF _ _ _ _ u rw,
            of eA "fst (redeem eA st uid ridA)" rA eB
               "fst (redeem eB (fst (redeem eA st uid ridA)) uid ridB)" rB]) simp_all
    then show False using over by simp
  next
    assume o: "order = [1, 1, 0, 0]"
    have "rB = snd (redeem eB st uid ridB)"
      "rA = snd (redeem eA (fst (redeem eB st uid ridB)) uid ridA)"
      using run unfolding o schedule_serial_rev by simp_all
    then have "reward_pointsCost rwB + reward_pointsCost rwA \<le> rewardPoints_total u"
      using both by (intro redeem_twice_within_balance [OF _ _ _ _ u rw(2,1),
            of eB "fst (redeem eB st uid ridB)" rB eA
               "fst (redeem eA (fst (redeem eB st uid ridB)) uid ridA)" rA]) simp_all
    then show False using over by simp
  qed
qed

theorem serial_redemptions_no_double_spend_witness:
  "schedule demo_db [Pending demo_env 41 61, Pending demo_later 41 61] [0, 0, 1, 1] =
     (demo_redeemed,
      [Done (Response 200 True ''Reward redeemed successfully!''
               (Some (RewardData 61 ''Coffee'' ''Free coffee'' Voucher 30 20))),
       Done (failure 400 ''Insufficient points. You need 30 points but have 20'')]) \<and>
   \<not> (status (Response 200 True ''Reward redeemed successfully!''
                (Some (RewardData 61 ''Coffee'' ''Free coffee'' Voucher 30 20))) = 200 \<and>
      status (failure 400 ''Insufficient points. You need 30 points but have 20'') = 200)"
proof -
  have run: "schedule demo_db [Pending demo_env 41 61, Pending demo_later 41 61] [0, 0, 1, 1] =
     (demo_redeemed,
      [Done (Response 200 True ''Reward redeemed successfully!''
               (Some (RewardData 61 ''Coffee'' ''Free coffee'' Voucher 30 20))),
       Done (failure 400 ''Insufficient points. You need 30 points but have 20'')])"
  proof -
    have e1: "fst (redeem demo_env demo_db 41 61) = demo_redeemed"
      by (simp add: demo_redeemed_def)
    have e2: "snd (redeem demo_env demo_db 41 61) =
        Response 200 True ''Reward redeemed successfully!''
               (Some (RewardData 61 ''Coffee'' ''Free coffee'' Voucher 30 20))"
      by (simp add: demo_first_redeem)
    show ?thesis
      unfolding schedule_serial e1 e2 by (simp add: demo_second_redeem_fails)
  qed
  have order: "[0, 0, 1, 1] = [0, 0, 1, 1] \<or> [0, 0, 1, 1] = [1, 1, 0, (0::nat)]" by simp
  have over: "rewardPoints_total \<lparr>rewardPoints_total = 50, user_rewards = []\<rparr>
      < reward_pointsCost demo_coffee + reward_pointsCost demo_coffee"
    by (simp add: demo_coffee_fields)
  from serial_redemptions_no_double_spend [OF order run demo_users(1) demo_rewards(1)
      demo_rewards(1) over]
  show ?thesis using run by simp
qed

text \<open>
  Two redemptions of the 30-point reward against a balance of 50, scheduled so that both
  read the user before either saves: both are answered 200, the balance ends at 20 and
  the ledger holds two debits of 30.
\<close>

theorem concurrent_redemptions_counterexample:
  "User demo_db 41 = Some \<lparr>rewardPoints_total = 50, user_rewards = []\<rparr> \<and>
   Reward demo_db 61 = Some demo_coffee \<and> reward_pointsCost demo_coffee = 30 \<and>
   schedule demo_db [Pending demo_env 41 61, Pending demo_later 41 61] [0, 1, 0, 1] =
     (demo_db\<lparr>User := (User demo_db)(41 \<mapsto>
                 \<lparr>rewardPoints_total = 20,
                  user_rewards = [redeemed_of demo_env demo_coffee,
                                  redeemed_of demo_later demo_coffee]\<rparr>),
              RewardHistory := [debit_of demo_env 41 demo_coffee,
                                debit_of demo_later 41 demo_coffee]\<rparr>,
      [Done (Response 200 True ''Reward redeemed successfully!''
               (Some (RewardData 61 ''Coffee'' ''Free coffee'' Voucher 30 20))),
       Done (Response 200 True ''Reward redeemed successfully!''
               (Some (RewardData 61 ''Coffee'' ''Free coffee'' Voucher 30 20)))])"
  by (simp only: demo_users demo_rewards demo_coffee_fields demo_interleaved simp_thms)

end
